theory Spec2Isabelle
  imports Complex_Main
begin

section \<open>Python dictionaries\<close>

text \<open>
  A Python dict keeps its keys in insertion order, and storing under a key that is
  already present replaces the value where the key stands. It is modelled as an
  association list with distinct keys.
\<close>

type_synonym ('k, 'v) dict = "('k \<times> 'v) list"

fun dict_set :: "'k \<Rightarrow> 'v \<Rightarrow> ('k, 'v) dict \<Rightarrow> ('k,
    'v) dict" where
  "dict_set k v [] = [(k, v)]"
| "dict_set k v ((k', v') # d) =
     (if k' = k then (k', v) # d else (k', v') # dict_set k v d)"

definition dict_has :: "'k \<Rightarrow> ('k, 'v) dict \<Rightarrow> bool" where
  "dict_has k d = (k \<in> set (map fst d))"

definition dict_get :: "('k, 'v) dict \<Rightarrow> 'k \<Rightarrow> 'v \<Rightarrow> 'v" where
  "dict_get d k dflt = (case map_of d k of None \<Rightarrow> dflt | Some v \<Rightarrow> v)"

definition dict_literal :: "('k \<times> 'v) list \<Rightarrow> ('k, 'v) dict" where
  "dict_literal items = fold (\<lambda>(k, v) d. dict_set k v d) items []"

section \<open>Feature encoding\<close>

text \<open>
  web/app.py lines 76-79 and app.py lines 125-128: every vocabulary symptom starts
  at 0, then each requested symptom that is a key is set to 1.
\<close>

definition model_input :: "string list \<Rightarrow> string list \<Rightarrow> (string,
    int) dict" where
  "model_input symptoms user_symptoms =
     fold (\<lambda>symptom d. if dict_has symptom d then dict_set symptom 1 d else d)
       user_symptoms
       (fold (\<lambda>symptom d. dict_set symptom 0 d) symptoms [])"

section \<open>Specialty resolution\<close>

definition specialty_map :: "(string, string) dict" where
  "specialty_map = dict_literal
     [(''Fungal infection'', ''Dermatologist''), (''Allergy'', ''Allergist''),
      (''GERD'', ''Gastroenterologist''),
      (''Acne'', ''Dermatologist''), (''Pneumonia'', ''Pulmonologist''),
      (''Jaundice'', ''Gastroenterologist''),
      (''Migraine'', ''Neurologist''), (''Hypertension '', ''Cardiologist''),
      (''Heart attack'', ''Cardiologist''),
      (''Paralysis (brain hemorrhage)'', ''Neurologist''),
      (''Chicken pox'', ''Dermatologist''),
      (''Malaria'', ''General Practitioner''), (''Dengue'', ''General Practitioner''),
      (''Typhoid'', ''General Practitioner'')]"

definition specialist_of :: "string \<Rightarrow> string" where
  "specialist_of prediction = dict_get specialty_map prediction ''General Practitioner''"

section \<open>Values exchanged with the outside\<close>

text \<open>
  JSON values, as the Flask endpoint serialises them. A number is kept as the
  rational it denotes: the program only passes ratings and coordinates through.
\<close>

datatype jval =
    JNull
  | JBool bool
  | JNum rat
  | JStr string
  | JList "jval list"
  | JObj "(string, jval) dict"

text \<open>
  An exception is its class name and the text \<open>str(e)\<close> gives. Both front ends
  catch \<open>Exception\<close> and use only that text. For the exception Streamlit raises on
  a repeated widget key, which no handler of the page catches, the text kept is the
  key.
\<close>

datatype exn = Exn string string

fun str :: "exn \<Rightarrow> string" where
  "str (Exn cls msg) = msg"

definition KeyError :: "string \<Rightarrow> exn" where
  "KeyError k = Exn ''KeyError'' ([CHR 0x27] @ k @ [CHR 0x27])"

definition AttributeError :: "string \<Rightarrow> string \<Rightarrow> exn" where
  "AttributeError tp attr =
     Exn ''AttributeError''
       ([CHR 0x27] @ tp @ [CHR 0x27] @ '' object has no attribute '' @ [CHR 0x27] @ attr
           @ [CHR 0x27])"

definition NotSubscriptable :: "string \<Rightarrow> exn" where
  "NotSubscriptable tp =
     Exn ''TypeError'' ([CHR 0x27] @ tp @ [CHR 0x27] @ '' object is not subscriptable'')"

definition DuplicateKey :: "string \<Rightarrow> exn" where
  "DuplicateKey k = Exn ''StreamlitDuplicateElementKey'' k"

text \<open>
  A key of a detail record of the Places client: left out, present with the JSON
  value null, or present with a value of the type the Places API documents for it.
  \<open>dict.get\<close> gives its default for a key left out only; a null that is present
  comes back as \<open>None\<close>.
\<close>

datatype 'a field = Absent | Null | Val 'a

record latlng =
  lat :: "rat field"
  lng :: "rat field"

record geometry =
  location :: "latlng field"

record opening_hours =
  open_now :: "bool field"

record details =
  name :: "string field"
  formatted_address :: "string field"
  international_phone_number :: "string field"
  website :: "string field"
  rating :: "rat field"
  opening_hours :: "opening_hours field"
  geometry :: "geometry field"

text \<open>
  Of the answer to a detail fetch the program reads the key \<open>result\<close>, of the
  answer to a search the key \<open>results\<close>, and of a search result the key
  \<open>place_id\<close>. Each of these is either left out (\<open>None\<close>) or holds a value of the
  documented type.
\<close>

record place_response =
  result :: "details option"

record candidate =
  place_id :: "string option"

record places_response =
  results :: "candidate list option"

text \<open>The empty dict \<open>{}\<close> both front ends take for a missing detail record.\<close>

definition no_details :: details where
  "no_details = \<lparr>name = Absent, formatted_address = Absent,
     international_phone_number = Absent, website = Absent, rating = Absent,
     opening_hours = Absent, geometry = Absent\<rparr>"

section \<open>The Places client and the process state\<close>

text \<open>
  The two calls of the Google Maps client are functions of the outside world \<open>'w\<close>:
  each returns a response or raises, and leaves a new world. The state threaded
  through a request holds that world, the calls issued so far and the lines printed.
\<close>

datatype call = PlacesCall string string | PlaceCall string "string list"

record 'w sys =
  world :: 'w
  calls :: "call list"
  stdout :: "string list"

record 'w client =
  places :: "string \<Rightarrow> 'w \<Rightarrow> (exn + places_response) \<times> 'w"
  place :: "string \<Rightarrow> 'w \<Rightarrow> (exn + place_response) \<times> 'w"

text \<open>The list \<open>fields\<close> both front ends pass to \<open>gmaps.place\<close>.\<close>

definition place_fields :: "string list" where
  "place_fields = [''name'', ''formatted_address'', ''international_phone_number'',
             ''website'', ''rating'', ''opening_hours'', ''geometry'']"

definition gmaps_places :: "'w client \<Rightarrow> string \<Rightarrow> 'w sys \<Rightarrow> (exn + places_response) \<times> 'w sys" where
  "gmaps_places g query s =
     (case places g query (world s) of
        (r, w) \<Rightarrow> (r, s\<lparr>world := w,
            calls := calls s @ [PlacesCall query ''doctor'']\<rparr>))"

definition gmaps_place :: "'w client \<Rightarrow> string \<Rightarrow> 'w sys \<Rightarrow> (exn + place_response) \<times> 'w sys" where
  "gmaps_place g pid s =
     (case place g pid (world s) of
        (r, w) \<Rightarrow> (r, s\<lparr>world := w,
            calls := calls s @ [PlaceCall pid place_fields]\<rparr>))"

type_synonym classifier = "(string, int) dict \<Rightarrow> exn + string"

section \<open>Fields derived from a detail record\<close>

definition green_circle :: string where
  "green_circle = [CHR 0xF0, CHR 0x9F, CHR 0x9F, CHR 0xA2]"

definition red_circle :: string where
  "red_circle = [CHR 0xF0, CHR 0x9F, CHR 0x94, CHR 0xB4]"

text \<open>
  web/app.py lines 101-104 and app.py lines 197-200. Opening hours that are null
  have no \<open>get\<close>; a flag that is left out or null counts as false.
\<close>

definition open_now_status :: "details \<Rightarrow> exn + string" where
  "open_now_status d =
     (case opening_hours d of
        Absent \<Rightarrow> Inr ''Status unknown''
      | Null \<Rightarrow> Inl (AttributeError ''NoneType'' ''get'')
      | Val oh \<Rightarrow>
          Inr (if (case open_now oh of Val b \<Rightarrow> b | _ \<Rightarrow> False)
               then green_circle @ '' Open now''
               else red_circle @ '' Closed''))"

definition replace :: "char \<Rightarrow> char \<Rightarrow> string \<Rightarrow> string" where
  "replace old new xs = map (\<lambda>c. if c = old then new else c) xs"

text \<open>\<open>details.get(key, dflt)\<close> of a text key, as a JSON value.\<close>

definition get_json :: "string field \<Rightarrow> string \<Rightarrow> jval" where
  "get_json f dflt
      = (case f of Absent \<Rightarrow> JStr dflt | Null \<Rightarrow> JNull | Val v \<Rightarrow> JStr v)"

text \<open>The same value inside an f-string, where \<open>None\<close> reads "None".\<close>

definition fmt :: "string field \<Rightarrow> string \<Rightarrow> string" where
  "fmt f dflt
      = (case f of Absent \<Rightarrow> dflt | Null \<Rightarrow> ''None'' | Val v \<Rightarrow> v)"

text \<open>\<open>details.get('rating', 'N/A')\<close>.\<close>

definition get_rating :: "details \<Rightarrow> jval" where
  "get_rating d
      = (case rating d of Absent \<Rightarrow> JStr ''N/A'' | Null \<Rightarrow> JNull | Val r \<Rightarrow> JNum r)"

text \<open>\<open>details.get('name', dflt).replace(' ', '+')\<close>: \<open>None\<close> has no \<open>replace\<close>.\<close>

definition name_plus :: "details \<Rightarrow> string \<Rightarrow> exn + string" where
  "name_plus d dflt =
     (case name d of
        Absent \<Rightarrow> Inr (replace (CHR '' '') (CHR ''+'') dflt)
      | Null \<Rightarrow> Inl (AttributeError ''NoneType'' ''replace'')
      | Val n \<Rightarrow> Inr (replace (CHR '' '') (CHR ''+'') n))"

definition coord :: "string \<Rightarrow> rat field \<Rightarrow> (string, jval) dict" where
  "coord k f = (case f of Absent \<Rightarrow> [] | Null \<Rightarrow> [(k,
      JNull)] | Val r \<Rightarrow> [(k, JNum r)])"

text \<open>\<open>details.get('geometry', {}).get('location', {})\<close>, web/app.py line 114.\<close>

definition location_json :: "details \<Rightarrow> exn + jval" where
  "location_json d =
     (case geometry d of
        Absent \<Rightarrow> Inr (JObj [])
      | Null \<Rightarrow> Inl (AttributeError ''NoneType'' ''get'')
      | Val geo \<Rightarrow>
          Inr (case location geo of
                 Absent \<Rightarrow> JObj []
               | Null \<Rightarrow> JNull
               | Val loc \<Rightarrow> JObj (coord ''lat'' (lat loc) @ coord ''lng'' (lng loc))))"

section \<open>The Flask endpoint (web/app.py)\<close>

type_synonym response = "jval \<times> nat"

text \<open>The body of the POST request: a JSON object whose two keys may be absent.\<close>

record request =
  req_symptoms :: "string list option"
  req_location :: "string option"

text \<open>
  The entry appended for one doctor, web/app.py lines 100-115: the status first,
  then the values of the dict in the order they are written.
\<close>

definition doctor_entry :: "details \<Rightarrow> string \<Rightarrow> exn + jval" where
  "doctor_entry d pid =
     (case open_now_status d of
        Inl e \<Rightarrow> Inl e
      | Inr status \<Rightarrow>
          (case name_plus d [] of
             Inl e \<Rightarrow> Inl e
           | Inr joined \<Rightarrow>
               (case location_json d of
                  Inl e \<Rightarrow> Inl e
                | Inr loc \<Rightarrow>
                    Inr (JObj (dict_literal
                      [(''name'', get_json (name d) ''N/A''),
                       (''address'', get_json (formatted_address d) ''Address not available''),
                       (''phone'', get_json (international_phone_number d) ''Phone not available''),
                       (''website'',
                           (case website d of Val u \<Rightarrow> JStr u | _ \<Rightarrow> JNull)),
                       (''rating'', get_rating d),
                       (''open_now_status'', JStr status),
                       (''gmaps_url'', JStr (''https://www.google.com/maps/search/?api=1&query=''
                           @ joined @ ''&query_place_id='' @ pid)),
                       (''location'', loc)])))))"

text \<open>
  The loop of web/app.py lines 92-115 over the remaining candidates; the second
  list is \<open>doctors_details\<close> as built so far. A raise leaves the loop at once.
\<close>

fun details_loop ::
  "'w client \<Rightarrow> candidate list \<Rightarrow> jval list \<Rightarrow> 'w sys \<Rightarrow> (exn + jval list) \<times> 'w sys" where
  "details_loop g [] doctors_details s = (Inr doctors_details, s)"
| "details_loop g (doctor # rest) doctors_details s =
     (case place_id doctor of
        None \<Rightarrow> (Inl (KeyError ''place_id''), s)
      | Some pid \<Rightarrow>
          (case gmaps_place g pid s of
             (Inl e, s') \<Rightarrow> (Inl e, s')
           | (Inr place_details, s') \<Rightarrow>
               (let d = (case result place_details of None \<Rightarrow> no_details | Some r \<Rightarrow> r)
                in case doctor_entry d pid of
                     Inl e \<Rightarrow> (Inl e, s')
                   | Inr entry \<Rightarrow> details_loop g rest (doctors_details @ [entry]) s')))"

definition jsonify_error :: "string \<Rightarrow> jval" where
  "jsonify_error msg = JObj (dict_literal [(''error'', JStr msg)])"

text \<open>The statements inside \<open>try\<close>, web/app.py lines 68-122.\<close>

definition predict_try ::
  "classifier \<Rightarrow> 'w client \<Rightarrow> string list \<Rightarrow> request \<Rightarrow> 'w sys \<Rightarrow> (exn + response) \<times> 'w sys" where
  "predict_try m g vocab data s =
     (let user_symptoms
         = (case req_symptoms data of None \<Rightarrow> [] | Some xs \<Rightarrow> xs);
          user_location = (case req_location data of None \<Rightarrow> [] | Some l \<Rightarrow> l)
      in if user_symptoms = [] \<or> user_location = [] then
           (Inr (jsonify_error ''Missing symptoms or location.'', 400), s)
         else
           (case m (model_input vocab user_symptoms) of
              Inl e \<Rightarrow> (Inl e, s)
            | Inr prediction \<Rightarrow>
                (let specialist = specialist_of prediction;
                     query = specialist @ '' in '' @ user_location
                 in case gmaps_places g query s of
                      (Inl e, s1) \<Rightarrow> (Inl e, s1)
                    | (Inr places_result, s1) \<Rightarrow>
                        (let doctors_list =
                               take 5 (case results places_result of None \<Rightarrow> [] | Some rs \<Rightarrow> rs)
                         in case details_loop g doctors_list [] s1 of
                              (Inl e, s2) \<Rightarrow> (Inl e, s2)
                            | (Inr doctors_details, s2) \<Rightarrow>
                                (Inr (JObj (dict_literal
                                   [(''predicted_disease'', JStr prediction),
                                    (''specialist'', JStr specialist),
                                    (''doctors'', JList doctors_details)]), 200), s2)))))"

text \<open>The module globals a request reads: each is \<open>None\<close> when its load failed.\<close>

record 'w backend =
  model :: "classifier option"
  gmaps :: "'w client option"
  symptoms :: "string list"

definition predict :: "'w backend \<Rightarrow> request \<Rightarrow> 'w sys \<Rightarrow> response \<times> 'w sys" where
  "predict b data s =
     (case (model b, gmaps b) of
        (Some m, Some g) \<Rightarrow>
          (case predict_try m g (symptoms b) data s of
             (Inl e, s') \<Rightarrow>
               ((jsonify_error (str e), 500),
                s'\<lparr>stdout := stdout s' @ [''An error occurred during prediction: ''
                    @ str e]\<rparr>)
           | (Inr r, s') \<Rightarrow> (r, s'))
      | _ \<Rightarrow> ((jsonify_error ''Backend server is not configured correctly.'', 500),
          s))"

section \<open>The Streamlit page (app.py)\<close>

text \<open>
  What the results column shows, in order. The container of a doctor card (app.py
  lines 202-218) shows the text lines, then the website button (the link, or the
  disabled button with its key) and the map button.
\<close>

record card_lines =
  card_name :: string
  card_rating :: jval
  card_open_now :: string
  card_address :: string
  card_phone :: string

record map_point =
  mp_name :: jval
  mp_lat :: jval
  mp_lon :: jval

datatype ui =
    Warning string
  | Error string
  | Info string
  | Success string
  | Write string
  | Markdown string
  | Subheader string
  | Divider
  | Balloons
  | Status string
  | StatusUpdate string string
  | CardLines card_lines
  | WebsiteLink string
  | WebsiteNA string
  | MapLink string
  | MapChart "map_point list"
  | Uncaught exn

text \<open>
  A search result and the \<open>details\<close> key the loop adds to it (\<open>None\<close> while the key
  is absent).
\<close>

type_synonym doctor = "candidate \<times> details option"

text \<open>
  The map point of app.py lines 165-168, if the record has a geometry: subscripting
  raises on a null and on a key left out.
\<close>

definition map_point_of :: "details \<Rightarrow> exn + map_point option" where
  "map_point_of d =
     (case geometry d of
        Absent \<Rightarrow> Inr None
      | Null \<Rightarrow> Inl (NotSubscriptable ''NoneType'')
      | Val geo \<Rightarrow>
          (case location geo of
             Absent \<Rightarrow> Inl (KeyError ''location'')
           | Null \<Rightarrow> Inl (NotSubscriptable ''NoneType'')
           | Val loc \<Rightarrow>
               (if lat loc = Absent then Inl (KeyError ''lat'')
                else if lng loc = Absent then Inl (KeyError ''lng'')
                else Inr (Some \<lparr>mp_name = get_json (name d) ''N/A'',
                                mp_lat = (case lat loc of Val r \<Rightarrow> JNum r | _ \<Rightarrow> JNull),
                                mp_lon = (case lng loc of Val r \<Rightarrow> JNum r | _ \<Rightarrow> JNull)\<rparr>))))"

text \<open>
  The loop of app.py lines 155-168. The first list holds the doctors already
  passed, the second those still to visit; together they are \<open>doctors_list\<close>. On a
  raise the lists are returned as they stand.
\<close>

fun place_loop ::
  "'w client \<Rightarrow> doctor list \<Rightarrow> doctor list \<Rightarrow> map_point list \<Rightarrow> 'w sys
   \<Rightarrow> (exn option \<times> doctor list \<times> map_point list) \<times> 'w sys" where
  "place_loop g seen [] map_data_list s = ((None, seen, map_data_list), s)"
| "place_loop g seen (doctor # rest) map_data_list s =
     (case place_id (fst doctor) of
        None \<Rightarrow> ((Some (KeyError ''place_id''), seen @ doctor # rest, map_data_list), s)
      | Some pid \<Rightarrow>
          (case gmaps_place g pid s of
             (Inl e, s') \<Rightarrow> ((Some e, seen @ doctor # rest, map_data_list), s')
           | (Inr place_details, s') \<Rightarrow>
               (let d = (case result place_details of None \<Rightarrow> no_details | Some r \<Rightarrow> r);
                    doctor' = (fst doctor, Some d)
                in case map_point_of d of
                     Inl e \<Rightarrow> ((Some e, seen @ doctor' # rest, map_data_list), s')
                   | Inr None \<Rightarrow> place_loop g (seen @ [doctor']) rest map_data_list s'
                   | Inr (Some point) \<Rightarrow>
                       place_loop g (seen @ [doctor']) rest (map_data_list @ [point]) s')))"

text \<open>The variables the \<open>try\<close> block of app.py assigns, and what it has written.\<close>

record locals =
  prediction :: "string option"
  specialist :: "string option"
  doctors_list :: "doctor list"
  map_data_list :: "map_point list"
  written :: "ui list"

text \<open>
  The \<open>try\<close> block, app.py lines 121-170: the exception that ended it, if any, and
  the variables as it left them.
\<close>

definition processing ::
  "classifier \<Rightarrow> 'w client \<Rightarrow> string list \<Rightarrow> string list \<Rightarrow> string \<Rightarrow> 'w sys
   \<Rightarrow> (exn option \<times> locals) \<times> 'w sys" where
  "processing m g vocab user_symptoms user_location s =
     (let l0 = \<lparr>prediction = None, specialist = None, doctors_list = [],
                map_data_list = [], written = [Write ''Analyzing your symptoms...'']\<rparr>
      in case m (model_input vocab user_symptoms) of
           Inl e \<Rightarrow> ((Some e, l0), s)
         | Inr p \<Rightarrow>
             (let sp = specialist_of p;
                  l1 = l0\<lparr>prediction := Some p, specialist := Some sp,
                          written := written l0 @
                            [Write ''Identifying the right specialist...'',
                             Write (''Searching for '' @ sp @ ''s near '' @ user_location
                                 @ ''...'')]\<rparr>
              in case gmaps_places g (sp @ '' in '' @ user_location) s of
                   (Inl e, s1) \<Rightarrow> ((Some e, l1), s1)
                 | (Inr places_result, s1) \<Rightarrow>
                     (let found
                         = take 5 (case results places_result of None \<Rightarrow> [] | Some rs \<Rightarrow> rs)
                      in case place_loop g [] (map (\<lambda>c. (c, None)) found) [] s1 of
                           ((raised, dl, ml), s2) \<Rightarrow>
                             ((raised, l1\<lparr>doctors_list := dl,
                                 map_data_list := ml\<rparr>), s2))))"

text \<open>
  The card of one doctor, app.py lines 189-217, given the widget keys in use. The
  status is worked out before the container opens. The disabled button takes the
  key \<open>web_na_\<close> with the place id, and Streamlit refuses a key already in use; the
  map link needs the name to have \<open>replace\<close>. The result holds what was drawn and
  the keys in use afterwards, \<open>None\<close> when an exception ended the script run.
\<close>

definition web_na_key :: "string \<Rightarrow> string" where
  "web_na_key pid = ''web_na_'' @ pid"

definition map_url :: "string \<Rightarrow> string \<Rightarrow> string" where
  "map_url joined pid =
     ''http://googleusercontent.com/maps/google.com/4'' @ joined @ ''&query_place_id='' @ pid"

definition draw_card :: "string list \<Rightarrow> details \<Rightarrow> string \<Rightarrow> ui list \<times> string list option" where
  "draw_card keys d pid =
     (case open_now_status d of
        Inl e \<Rightarrow> ([Uncaught e], None)
      | Inr status \<Rightarrow>
          (let lines = CardLines
                 \<lparr>card_name = fmt (name d) ''N/A'',
                  card_rating = get_rating d,
                  card_open_now = status,
                  card_address = fmt (formatted_address d) ''Address not available'',
                  card_phone = fmt (international_phone_number d) ''Phone not available''\<rparr>;
               url = (case website d of Val u \<Rightarrow> u | _ \<Rightarrow> [])
           in if url \<noteq> [] then
                (case name_plus d ''N/A'' of
                   Inl e \<Rightarrow> ([lines, WebsiteLink url, Uncaught e], None)
                 | Inr joined \<Rightarrow> ([lines, WebsiteLink url,
                     MapLink (map_url joined pid)], Some keys))
              else if web_na_key pid \<in> set keys then
                ([lines, Uncaught (DuplicateKey (web_na_key pid))], None)
              else
                (case name_plus d ''N/A'' of
                   Inl e \<Rightarrow> ([lines, WebsiteNA (web_na_key pid), Uncaught e], None)
                 | Inr joined \<Rightarrow>
                     ([lines, WebsiteNA (web_na_key pid), MapLink (map_url joined pid)],
                      Some (web_na_key pid # keys)))))"

text \<open>
  The display loop, app.py lines 188-218, from the widget keys in use. It runs
  outside \<open>try\<close>: a doctor without \<open>place_id\<close>, or an exception inside a card, ends
  the script run (\<open>None\<close>); otherwise the keys in use at the end are returned.
\<close>

fun card_loop :: "string list \<Rightarrow> doctor list \<Rightarrow> ui list \<times> string list option" where
  "card_loop keys [] = ([], Some keys)"
| "card_loop keys (doctor # rest) =
     (let d = (case snd doctor of None \<Rightarrow> no_details | Some r \<Rightarrow> r)
      in case place_id (fst doctor) of
           None \<Rightarrow> ([Uncaught (KeyError ''place_id'')], None)
         | Some pid \<Rightarrow>
             (case draw_card keys d pid of
                (shown, None) \<Rightarrow> (shown, None)
              | (shown, Some keys') \<Rightarrow>
                  (case card_loop keys' rest of
                     (later, fin) \<Rightarrow> (shown @ Write [] # later, fin))))"

text \<open>
  No other widget of the page has a key, so the loop starts with none in use. The
  second component tells whether the loop came to its end.
\<close>

definition cards :: "doctor list \<Rightarrow> ui list \<times> bool" where
  "cards doctors = (case card_loop [] doctors of (shown, fin) \<Rightarrow> (shown,
      fin \<noteq> None))"

text \<open>The display of app.py lines 177-224.\<close>

definition display :: "locals \<Rightarrow> ui list" where
  "display l =
     (case (prediction l, specialist l) of
        (Some p, Some sp) \<Rightarrow>
          (if p \<noteq> [] \<and> sp \<noteq> [] then
             [Success (''**Predicted Condition:** '' @ p), Balloons,
              Markdown (''### Recommended Specialist: **'' @ sp @ ''**''), Divider,
              Subheader (''Top 5 '' @ sp @ ''s near you:'')] @
             (if doctors_list l = [] then
                [Warning ''No doctors found matching your criteria. Try a broader location.'']
              else
                (case cards (doctors_list l) of
                   (shown, ok) \<Rightarrow>
                     shown @
                     (if ok \<and> map_data_list l \<noteq> [] then
                        [Divider, Subheader ''Doctor Locations:'', MapChart (map_data_list l)]
                      else [])))
           else [])
      | _ \<Rightarrow> [])"

text \<open>
  The handler of the button, app.py lines 105-227, with the start-up checks of lines
  79 and 229-232 around it. The third argument is the state of the button.
\<close>

definition find_doctor ::
  "'w backend \<Rightarrow> bool \<Rightarrow> string list \<Rightarrow> string \<Rightarrow> 'w sys \<Rightarrow> ui list \<times> 'w sys" where
  "find_doctor b find_doctor_button user_symptoms user_location s =
     (case (model b, gmaps b) of
        (Some m, Some g) \<Rightarrow>
          (if symptoms b = [] then
             ([Error ''Application could not be started. Please check model/data file paths.''],
                 s)
           else if \<not> find_doctor_button then ([Info ''Your results will appear here.''], s)
           else if user_symptoms = [] then ([Warning ''Please select at least one symptom.''], s)
           else if user_location = [] then ([Warning ''Please enter your location.''], s)
           else
             (case processing m g (symptoms b) user_symptoms user_location s of
                ((raised, l), s') \<Rightarrow>
                  (Status ''Finding recommendations...'' # written l @
                   (case raised of
                      None \<Rightarrow> [StatusUpdate ''Analysis Complete!'' ''complete'']
                    | Some e \<Rightarrow>
                        [StatusUpdate ''Error processing request'' ''error'',
                         Error (''An error occurred: '' @ str e)]) @
                   display l, s')))
      | (None, _) \<Rightarrow>
          ([Error ''Application could not be started. Please check model/data file paths.''], s)
      | (Some m, None) \<Rightarrow>
          (if symptoms b = [] then
             [Error ''Application could not be started. Please check model/data file paths.'']
           else
             [Error ''Google Maps Client could not be initialized. Please check your API key in .streamlit/secrets.toml''],
           s))"

section \<open>Test doubles\<close>

text \<open>
  A classifier and Places clients for running the two front ends on concrete
  requests. The world of these clients is the number of calls answered so far.
\<close>

definition demo_symptoms :: "string list" where
  "demo_symptoms = [''itching'', ''skin_rash'', ''headache'', ''cough'']"

definition demo_model :: classifier where
  "demo_model v =
     (if dict_get v ''itching'' 0 = 1 then Inr ''Fungal infection''
      else if dict_get v ''headache'' 0 = 1 then Inr ''Migraine''
      else Inr ''Common Cold'')"

definition broken_model :: classifier where
  "broken_model v = Inl (Exn ''ValueError'' ''X has 4 features, but the model is expecting 132'')"

definition demo_details :: "string \<Rightarrow> details" where
  "demo_details pid =
     \<lparr>name = Val (''Dr '' @ pid), formatted_address = Val (''Street '' @ pid),
      international_phone_number = Absent, website = Val (''https://'' @ pid @ ''.example''),
      rating = Val (9 / 2),
      opening_hours = Val \<lparr>open_now = Val True\<rparr>,
      geometry = Val \<lparr>location = Val \<lparr>lat = Val 28,
          lng = Val 77\<rparr>\<rparr>\<rparr>"

definition demo_found :: "candidate list" where
  "demo_found = map (\<lambda>pid. \<lparr>place_id = Some pid\<rparr>)
     [''p1'', ''p2'', ''p3'', ''p4'', ''p5'', ''p6'']"

definition ok_client :: "nat client" where
  "ok_client =
     \<lparr>places = (\<lambda>query w. (Inr \<lparr>results = Some demo_found\<rparr>, Suc w)),
      place = (\<lambda>pid w. (Inr \<lparr>result = Some (demo_details pid)\<rparr>,
          Suc w))\<rparr>"


definition down_client :: "nat client" where
  "down_client =
     \<lparr>places
         = (\<lambda>query w. (Inl (Exn ''ApiError'' ''REQUEST_DENIED (The provided API key is invalid.)''), Suc w)),
      place = (\<lambda>pid w. (Inl (Exn ''ApiError'' ''REQUEST_DENIED (The provided API key is invalid.)''), Suc w))\<rparr>"

definition empty_client :: "nat client" where
  "empty_client =
     \<lparr>places = (\<lambda>query w. (Inr \<lparr>results = Some []\<rparr>, Suc w)),
      place = (\<lambda>pid w. (Inr \<lparr>result = None\<rparr>, Suc w))\<rparr>"


definition backend_with :: "classifier \<Rightarrow> nat client \<Rightarrow> nat backend" where
  "backend_with m g = \<lparr>model = Some m, gmaps = Some g, symptoms = demo_symptoms\<rparr>"

definition start :: "nat sys" where
  "start = \<lparr>world = 0, calls = [], stdout = []\<rparr>"

definition demo_request :: request where
  "demo_request = \<lparr>req_symptoms = Some [''itching'', ''skin_rash''],
                    req_location = Some ''New Delhi''\<rparr>"

text \<open>
  The two runs of \<open>ok_client\<close> and the stages of the run of \<open>flaky_client\<close>, whose
  third detail fetch times out: the state after the search, after the two fetches
  that succeed and after the one that fails, the candidates before and after the
  failing one, and the doctors and map points the Streamlit loop has gathered by then.
\<close>

abbreviation ok_response :: "response \<times> nat sys" where
  "ok_response \<equiv> predict (backend_with demo_model ok_client) demo_request start"

abbreviation ok_processing :: "(exn option \<times> locals) \<times> nat sys" where
  "ok_processing \<equiv>
     processing demo_model ok_client demo_symptoms [''headache''] ''Varanasi'' start"








section \<open>Facts about the dictionary operations\<close>

lemma dict_set_absent: "\<not> dict_has k d \<Longrightarrow> dict_set k v d = d @ [(k, v)]"
  by (induction d) (auto simp: dict_has_def)

lemma mark_absent:
  "\<not> dict_has k d \<Longrightarrow> map (\<lambda>(k', v'). (k',
      if k' = k then v else v')) d = d"
  by (induction d) (auto simp: dict_has_def)

lemma dict_set_present:
  "distinct (map fst d) \<Longrightarrow> dict_has k d \<Longrightarrow>
   dict_set k v d = map (\<lambda>(k', v'). (k', if k' = k then v else v')) d"
proof (induction d)
  case Nil
  then show ?case by (simp add: dict_has_def)
next
  case (Cons p d)
  obtain k' v' where p: "p = (k', v')" by (cases p)
  show ?case
  proof (cases "k' = k")
    case True
    with Cons.prems p have "\<not> dict_has k d" by (auto simp: dict_has_def)
    then have "map (\<lambda>(k', v'). (k', if k' = k then v else v')) d = d"
      by (rule mark_absent)
    with True p show ?thesis by simp
  next
    case False
    with Cons p show ?thesis by (auto simp: dict_has_def)
  qed
qed

lemma zero_fill:
  "distinct (map fst d @ V) \<Longrightarrow>
   fold (\<lambda>symptom d. dict_set symptom (0::int) d) V d = d @ map (\<lambda>v. (v, 0)) V"
proof (induction V arbitrary: d)
  case Nil
  then show ?case by simp
next
  case (Cons v V)
  from Cons.prems have "\<not> dict_has v d" by (auto simp: dict_has_def)
  then have "dict_set v (0::int) d = d @ [(v, 0)]" by (rule dict_set_absent)
  moreover from Cons.prems have "distinct (map fst (d @ [(v, 0::int)]) @ V)" by auto
  ultimately show ?case using Cons.IH [of "d @ [(v, 0)]"] by simp
qed

lemma mark_fill:
  "distinct (map fst d) \<Longrightarrow>
   fold (\<lambda>symptom d. if dict_has symptom d then dict_set symptom (1::int) d else d) S d
     = map (\<lambda>(k, v). (k, if k \<in> set S then 1 else v)) d"
proof (induction S arbitrary: d)
  case Nil
  then show ?case by simp
next
  case (Cons u S)
  let ?d' = "map (\<lambda>(k', v'). (k', if k' = u then 1 else v')) d"
  have step: "(if dict_has u d then dict_set u (1::int) d else d) = ?d'"
    using Cons.prems by (simp add: dict_set_present mark_absent)
  have keys: "map fst ?d' = map fst d" by (induction d) auto
  have "distinct (map fst ?d')" unfolding keys by (rule Cons.prems)
  from Cons.IH [OF this] step show ?case
    by (auto simp: case_prod_beta)
qed

lemma model_input_closed:
  assumes "distinct V"
  shows "model_input V S = map (\<lambda>v. (v, if v \<in> set S then 1 else 0)) V"
proof -
  have z: "fold (\<lambda>symptom d. dict_set symptom (0::int) d) V [] = map (\<lambda>v. (v,
      0)) V"
    using zero_fill [of "[]" V] assms by simp
  have "distinct (map fst (map (\<lambda>v. (v, 0::int)) V))"
    using assms by (simp add: comp_def)
  from mark_fill [OF this, of S] z show ?thesis
    by (simp add: model_input_def comp_def)
qed

section \<open>Feature encoding: the vector\<close>

text \<open>
  Claim C1. With a vocabulary \<open>V\<close> free of duplicates (the columns of the training
  file), the encoding of any requested list \<open>S\<close>, so of every non-empty one, has one
  entry per vocabulary symptom, in the order of \<open>V\<close>; the entry of a symptom is 1
  exactly when the symptom is requested. The encoding is a total function, and
  requested symptoms outside \<open>V\<close> change nothing: dropping them from \<open>S\<close> gives
  the same vector.
\<close>

theorem model_input_vector:
  assumes "distinct V"
  shows "model_input V S = map (\<lambda>v. (v, if v \<in> set S then 1 else 0)) V \<and>
         length (model_input V S) = length V \<and>
         map fst (model_input V S) = V \<and>
         (\<forall>i<length V. snd (model_input V S ! i)
             = (if V ! i \<in> set S then 1 else 0)) \<and>
         model_input V (filter (\<lambda>x. x \<in> set V) S) = model_input V S"
proof -
  note c = model_input_closed [OF assms]
  have "map (\<lambda>v. (v,
      if v \<in> set (filter (\<lambda>x. x \<in> set V) S) then 1 else 0)) V
          = map (\<lambda>v. (v, if v \<in> set S then (1::int) else 0)) V"
    by (rule map_cong) auto
  then show ?thesis by (simp add: c comp_def)
qed

theorem model_input_vector_witness:
  "distinct demo_symptoms \<and>
   model_input demo_symptoms [''skin_rash'', ''fever'', ''itching'']
     = [(''itching'', 1), (''skin_rash'', 1), (''headache'', 0), (''cough'', 0)] \<and>
   model_input demo_symptoms [''skin_rash'', ''itching'']
     = model_input demo_symptoms [''skin_rash'', ''fever'', ''itching'']"
proof -
  have d: "distinct demo_symptoms" by (simp add: demo_symptoms_def)
  from model_input_vector [OF d, of "[''skin_rash'', ''fever'', ''itching'']"] d
  show ?thesis by (simp add: demo_symptoms_def)
qed

section \<open>Specialty resolution: the lookup\<close>

lemma dict_literal_simps:
  "dict_literal [] = ([] :: ('k, 'v) dict)"
  "dict_literal [(k, v)] = [(k, v)]"
  by (simp_all add: dict_literal_def)

lemma jsonify_error_eq: "jsonify_error msg = JObj [(''error'', JStr msg)]"
  by (simp add: jsonify_error_def dict_literal_def)

lemma specialty_map_eq:
  "specialty_map =
     [(''Fungal infection'', ''Dermatologist''), (''Allergy'', ''Allergist''),
      (''GERD'', ''Gastroenterologist''),
      (''Acne'', ''Dermatologist''), (''Pneumonia'', ''Pulmonologist''),
      (''Jaundice'', ''Gastroenterologist''),
      (''Migraine'', ''Neurologist''), (''Hypertension '', ''Cardiologist''),
      (''Heart attack'', ''Cardiologist''),
      (''Paralysis (brain hemorrhage)'', ''Neurologist''),
      (''Chicken pox'', ''Dermatologist''),
      (''Malaria'', ''General Practitioner''), (''Dengue'', ''General Practitioner''),
      (''Typhoid'', ''General Practitioner'')]"
  by (simp add: specialty_map_def dict_literal_def)

lemma specialty_map_distinct: "distinct (map fst specialty_map)"
  by (simp add: specialty_map_eq)

lemma specialist_of_mapped: "(label,
    sp) \<in> set specialty_map \<Longrightarrow> specialist_of label = sp"
  using specialty_map_distinct by (simp add: specialist_of_def dict_get_def)

lemma specialist_of_unmapped:
  "label \<notin> fst ` set specialty_map \<Longrightarrow> specialist_of label
      = ''General Practitioner''"
proof -
  assume "label \<notin> fst ` set specialty_map"
  then have "map_of specialty_map label = None" by (simp add: map_of_eq_None_iff)
  then show ?thesis by (simp add: specialist_of_def dict_get_def)
qed

lemma specialist_of_nonempty: "specialist_of label \<noteq> []"
proof (cases "map_of specialty_map label")
  case None
  then show ?thesis by (simp add: specialist_of_def dict_get_def)
next
  case (Some sp)
  then have "(label, sp) \<in> set specialty_map" by (rule map_of_SomeD)
  then have "sp \<noteq> []" unfolding specialty_map_eq by auto
  with Some show ?thesis by (simp add: specialist_of_def dict_get_def)
qed

text \<open>
  Claim C5. Specialty resolution is a total function of the label. It sends
  "Migraine" to "Neurologist", every key of the static map to the specialist the map
  gives it, and every label that is not a key to "General Practitioner".
\<close>

theorem specialist_of_lookup:
  "specialist_of ''Migraine'' = ''Neurologist'' \<and>
   (\<forall>label sp. (label,
       sp) \<in> set specialty_map \<longrightarrow> specialist_of label = sp) \<and>
   (\<forall>label. label \<notin> fst ` set specialty_map \<longrightarrow>
       specialist_of label = ''General Practitioner'')"
proof (intro conjI allI impI)
  show "specialist_of ''Migraine'' = ''Neurologist''"
    by (rule specialist_of_mapped) (simp add: specialty_map_eq)
qed (simp_all add: specialist_of_mapped specialist_of_unmapped)

theorem specialist_of_lookup_witness:
  "(''Allergy'', ''Allergist'') \<in> set specialty_map
      \<and> specialist_of ''Allergy'' = ''Allergist'' \<and>
   ''Common Cold'' \<notin> fst ` set specialty_map \<and>
   specialist_of ''Common Cold'' = ''General Practitioner''"
proof -
  have a: "(''Allergy'', ''Allergist'') \<in> set specialty_map"
    by (simp add: specialty_map_eq)
  have c: "''Common Cold'' \<notin> fst ` set specialty_map"
    by (simp add: specialty_map_eq)
  from specialist_of_lookup a c show ?thesis by blast
qed

section \<open>Facts about the Flask endpoint\<close>

lemma gmaps_place_log:
  "gmaps_place g pid s = (r, s') \<Longrightarrow>
     calls s' = calls s @ [PlaceCall pid place_fields] \<and> stdout s' = stdout s"
  by (auto simp: gmaps_place_def split: prod.splits)

lemma gmaps_places_log:
  "gmaps_places g q s = (r, s') \<Longrightarrow>
     calls s' = calls s @ [PlacesCall q ''doctor''] \<and> stdout s' = stdout s"
  by (auto simp: gmaps_places_def split: prod.splits)

lemma details_loop_append:
  "details_loop g (xs @ ys) acc s =
     (case details_loop g xs acc s of
        (Inl e, s') \<Rightarrow> (Inl e, s')
      | (Inr acc', s') \<Rightarrow> details_loop g ys acc' s')"
  by (induction xs arbitrary: acc s)
     (auto simp: Let_def split: option.splits prod.splits sum.splits)

lemma details_loop_step_ok:
  assumes "details_loop g (c # rest) acc s = (Inr out, s')"
  shows "\<exists>pid r s1 entry. place_id c = Some pid \<and>
      gmaps_place g pid s = (Inr r, s1) \<and>
           doctor_entry (case result r of None \<Rightarrow> no_details | Some x \<Rightarrow> x) pid = Inr entry \<and>
           details_loop g rest (acc @ [entry]) s1 = (Inr out, s')"
proof -
  from assms obtain pid where pid: "place_id c = Some pid"
    by (cases "place_id c") auto
  obtain r s1 where f: "gmaps_place g pid s = (r, s1)"
    by (cases "gmaps_place g pid s") auto
  from assms pid f obtain pd where r: "r = Inr pd"
    by (cases r) auto
  define d where "d = (case result pd of None \<Rightarrow> no_details | Some x \<Rightarrow> x)"
  from assms pid f r obtain entry where e: "doctor_entry d pid = Inr entry"
    by (cases "doctor_entry d pid") (auto simp: d_def Let_def)
  with assms pid f r have "details_loop g rest (acc @ [entry]) s1 = (Inr out, s')"
    by (simp add: d_def Let_def)
  with pid f r e show ?thesis unfolding d_def by blast
qed

lemma details_loop_ok:
  "details_loop g cs acc s = (Inr out, s') \<Longrightarrow>
     \<exists>pids new. map place_id cs = map Some pids \<and> out = acc @ new \<and>
         length new = length cs \<and>
       calls s' = calls s @ map (\<lambda>pid. PlaceCall pid place_fields) pids \<and>
       stdout s' = stdout s"
proof (induction cs arbitrary: acc s)
  case Nil
  then show ?case by simp
next
  case (Cons c cs)
  from details_loop_step_ok [OF Cons.prems] obtain pid r s1 entry where
    pid: "place_id c = Some pid" and
    fetch: "gmaps_place g pid s = (Inr r, s1)" and
    rest: "details_loop g cs (acc @ [entry]) s1 = (Inr out, s')"
    by blast
  from Cons.IH [OF rest] obtain pids new where
    IH: "map place_id cs = map Some pids" "out = (acc @ [entry]) @ new" "length new = length cs"
        "calls s' = calls s1 @ map (\<lambda>pid. PlaceCall pid place_fields) pids"
        "stdout s' = stdout s1"
    by blast
  from gmaps_place_log [OF fetch] have
    log: "calls s1 = calls s @ [PlaceCall pid place_fields]" "stdout s1 = stdout s"
    by simp_all
  show ?case
  proof (intro exI conjI)
    show "map place_id (c # cs) = map Some (pid # pids)" using pid IH(1) by simp
    show "out = acc @ (entry # new)" using IH(2) by simp
    show "length (entry # new) = length (c # cs)" using IH(3) by simp
    show "calls s' = calls s @ map (\<lambda>pid. PlaceCall pid place_fields) (pid # pids)"
      using IH(4) log(1) by simp
    show "stdout s' = stdout s" using IH(5) log(2) by simp
  qed
qed

lemma details_loop_nth:
  assumes "details_loop g cs acc s = (Inr out, s')" and "i < length cs"
  shows "\<exists>sa pid r sb. details_loop g (take i cs) acc s = (Inr (take (length acc + i) out),
      sa) \<and>
           place_id (cs ! i) = Some pid \<and> gmaps_place g pid sa = (Inr r, sb) \<and>
           doctor_entry (case result r of None \<Rightarrow> no_details | Some x \<Rightarrow> x) pid
             = Inr (out ! (length acc + i))"
proof -
  from assms(2) have split: "cs = take i cs @ cs ! i # drop (Suc i) cs"
    by (rule id_take_nth_drop)
  obtain r0 sa where pre: "details_loop g (take i cs) acc s = (r0, sa)"
    by (cases "details_loop g (take i cs) acc s") auto
  from assms(1) have whole: "details_loop g (take i cs @ cs ! i # drop (Suc i) cs) acc s
      = (Inr out, s')"
    using split by simp
  from whole pre obtain acc' where r0: "r0 = Inr acc'"
    by (cases r0) (auto simp: details_loop_append)
  from whole pre r0 have
    tail: "details_loop g (cs ! i # drop (Suc i) cs) acc' sa = (Inr out, s')"
    by (simp add: details_loop_append)
  from details_loop_ok [OF pre [unfolded r0]] assms(2) obtain new where
    acc': "acc' = acc @ new" "length new = i"
    by auto
  from details_loop_step_ok [OF tail] obtain pid r sb entry where
    pid: "place_id (cs ! i) = Some pid" and
    fetch: "gmaps_place g pid sa = (Inr r, sb)" and
    entry: "doctor_entry (case result r of None \<Rightarrow> no_details | Some x \<Rightarrow> x) pid = Inr entry" and
    rest: "details_loop g (drop (Suc i) cs) (acc' @ [entry]) sb = (Inr out, s')"
    by blast
  from details_loop_ok [OF rest] obtain new' where out: "out = (acc' @ [entry]) @ new'"
    by blast
  from out acc' have nth: "out ! (length acc + i) = entry"
    by (simp add: nth_append)
  from out acc' have tk: "take (length acc + i) out = acc'"
    by simp
  from pre r0 tk pid fetch entry nth show ?thesis by auto
qed

lemma predict_success_inv:
  assumes "predict b data s = ((body, 200), s')"
  obtains m g S L p pr s1 ds where
    "model b = Some m" "gmaps b = Some g"
    "req_symptoms data = Some S" "S \<noteq> []" "req_location data = Some L" "L \<noteq> []"
    "m (model_input (symptoms b) S) = Inr p"
    "gmaps_places g (specialist_of p @ '' in '' @ L) s = (Inr pr, s1)"
    "details_loop g (take 5 (case results pr of None \<Rightarrow> [] | Some rs \<Rightarrow> rs)) [] s1 = (Inr ds, s')"
    "body = JObj [(''predicted_disease'', JStr p), (''specialist'', JStr (specialist_of p)),
                  (''doctors'', JList ds)]"
  using assms
  by (auto simp: predict_def predict_try_def Let_def jsonify_error_eq dict_literal_def
           split: option.splits sum.splits prod.splits if_splits)


section \<open>Facts about a single doctor\<close>



section \<open>The open-now status\<close>



section \<open>Fields of the doctor entries\<close>


lemma ok_run_status:
  "snd (fst ok_response) = 200"
  by code_simp



section \<open>Facts about the Streamlit loop\<close>

lemma place_loop_append:
  "place_loop g seen (xs @ ys) ml s =
     (case place_loop g seen xs ml s of
        ((Some e, dl, ml'), s') \<Rightarrow> ((Some e, dl @ ys, ml'), s')
      | ((None, dl, ml'), s') \<Rightarrow> place_loop g dl ys ml' s')"
  by (induction xs arbitrary: seen ml s)
     (auto simp: Let_def split: option.splits prod.splits sum.splits)

lemma place_loop_step_ok:
  assumes "place_loop g seen (x # todo) ml s = ((None, dl, ml'), s')"
  shows "\<exists>pid r s1 ml1. place_id (fst x) = Some pid \<and>
      gmaps_place g pid s = (Inr r, s1) \<and>
       place_loop g (seen @ [(fst x,
           Some (case result r of None \<Rightarrow> no_details | Some x \<Rightarrow> x))])
         todo ml1 s1 = ((None, dl, ml'), s')"
proof -
  from assms obtain pid where pid: "place_id (fst x) = Some pid"
    by (cases "place_id (fst x)") auto
  obtain r s1 where f: "gmaps_place g pid s = (r, s1)"
    by (cases "gmaps_place g pid s") auto
  from assms pid f obtain pd where r: "r = Inr pd"
    by (cases r) auto
  define d where "d = (case result pd of None \<Rightarrow> no_details | Some x \<Rightarrow> x)"
  from assms pid f r obtain point where mp: "map_point_of d = Inr point"
    by (cases "map_point_of d") (auto simp: d_def Let_def)
  have "\<exists>ml1. place_loop g (seen @ [(fst x, Some d)]) todo ml1 s1 = ((None, dl, ml'), s')"
    using assms pid f r mp by (cases point) (auto simp: d_def Let_def)
  with pid f r show ?thesis unfolding d_def by blast
qed

lemma place_loop_ok:
  "place_loop g seen todo ml s = ((None, dl, ml'), s') \<Longrightarrow>
     \<exists>pids new. map (\<lambda>x. place_id (fst x)) todo = map Some pids \<and>
       dl = seen @ new \<and> length new = length todo \<and> map fst new = map fst todo \<and>
       calls s' = calls s @ map (\<lambda>pid. PlaceCall pid place_fields) pids \<and>
       stdout s' = stdout s"
proof (induction todo arbitrary: seen ml s)
  case Nil
  then show ?case by simp
next
  case (Cons x todo)
  from place_loop_step_ok [OF Cons.prems] obtain pid r s1 ml1 where
    pid: "place_id (fst x) = Some pid" and
    fetch: "gmaps_place g pid s = (Inr r, s1)" and
    rest: "place_loop g (seen @ [(fst x,
        Some (case result r of None \<Rightarrow> no_details | Some x \<Rightarrow> x))])
             todo ml1 s1 = ((None, dl, ml'), s')"
    by blast
  define d where "d = (case result r of None \<Rightarrow> no_details | Some x \<Rightarrow> x)"
  from Cons.IH [OF rest] obtain pids new where
    IH: "map (\<lambda>x. place_id (fst x)) todo = map Some pids"
        "dl = (seen @ [(fst x, Some d)]) @ new" "length new = length todo"
        "map fst new = map fst todo"
        "calls s' = calls s1 @ map (\<lambda>pid. PlaceCall pid place_fields) pids"
        "stdout s' = stdout s1"
    unfolding d_def by blast
  from gmaps_place_log [OF fetch] have
    log: "calls s1 = calls s @ [PlaceCall pid place_fields]" "stdout s1 = stdout s"
    by simp_all
  show ?case
  proof (intro exI conjI)
    show "map (\<lambda>x. place_id (fst x)) (x # todo)
        = map Some (pid # pids)" using pid IH(1) by simp
    show "dl = seen @ ((fst x, Some d) # new)" using IH(2) by simp
    show "length ((fst x, Some d) # new) = length (x # todo)" using IH(3) by simp
    show "map fst ((fst x, Some d) # new) = map fst (x # todo)" using IH(4) by simp
    show "calls s' = calls s @ map (\<lambda>pid. PlaceCall pid place_fields) (pid # pids)"
      using IH(5) log(1) by simp
    show "stdout s' = stdout s" using IH(6) log(2) by simp
  qed
qed

lemma place_loop_nth:
  assumes "place_loop g seen todo ml s = ((None, dl, ml'), s')" and "i < length todo"
  shows "\<exists>mi sa pid r sb.
           place_loop g seen (take i todo) ml s = ((None, take (length seen + i) dl, mi), sa) \<and>
           place_id (fst (todo ! i)) = Some pid \<and> gmaps_place g pid sa = (Inr r, sb) \<and>
           dl ! (length seen + i)
             = (fst (todo ! i),
                 Some (case result r of None \<Rightarrow> no_details | Some x \<Rightarrow> x))"
proof -
  from assms(2) have split: "todo = take i todo @ todo ! i # drop (Suc i) todo"
    by (rule id_take_nth_drop)
  obtain r0 d0 m0 sa where pre: "place_loop g seen (take i todo) ml s = ((r0, d0, m0), sa)"
    by (cases "place_loop g seen (take i todo) ml s") auto
  from assms(1) have
    whole: "place_loop g seen (take i todo @ todo ! i # drop (Suc i) todo) ml s = ((None, dl, ml'),
        s')"
    using split by simp
  from whole pre have r0: "r0 = None"
    by (cases r0) (auto simp: place_loop_append)
  from whole pre r0 have
    tail: "place_loop g d0 (todo ! i # drop (Suc i) todo) m0 sa = ((None, dl, ml'), s')"
    by (simp add: place_loop_append)
  from place_loop_ok [OF pre [unfolded r0]] assms(2) obtain new where
    d0: "d0 = seen @ new" "length new = i"
    by auto
  from place_loop_step_ok [OF tail] obtain pid r sb ml1 where
    pid: "place_id (fst (todo ! i)) = Some pid" and
    fetch: "gmaps_place g pid sa = (Inr r, sb)" and
    rest: "place_loop g (d0 @ [(fst (todo ! i),
        Some (case result r of None \<Rightarrow> no_details | Some x \<Rightarrow> x))])
             (drop (Suc i) todo) ml1 sb = ((None, dl, ml'), s')"
    by blast
  from place_loop_ok [OF rest] obtain new' where
    out: "dl = (d0 @ [(fst (todo ! i),
        Some (case result r of None \<Rightarrow> no_details | Some x \<Rightarrow> x))]) @ new'"
    by blast
  from out d0 have nth: "dl ! (length seen + i)
      = (fst (todo ! i),
          Some (case result r of None \<Rightarrow> no_details | Some x \<Rightarrow> x))"
    by (simp add: nth_append)
  from out d0 have tk: "take (length seen + i) dl = d0"
    by simp
  from pre r0 tk pid fetch nth show ?thesis by auto
qed

lemma place_loop_fresh_ok:
  assumes "place_loop g [] (map (\<lambda>c. (c, None)) found) [] s = ((None, dl, ml'), s')"
  shows "\<exists>pids. map place_id found = map Some pids \<and> length dl = length found \<and>
       map fst dl = found \<and>
       calls s' = calls s @ map (\<lambda>pid. PlaceCall pid place_fields) pids \<and>
       stdout s' = stdout s"
  using place_loop_ok [OF assms] by (auto simp: comp_def)

lemma place_loop_fresh_nth:
  assumes "place_loop g [] (map (\<lambda>c. (c, None)) found) [] s = ((None, dl, ml'), s')"
    and "i < length found"
  shows "\<exists>mi sa pid r sb.
           place_loop g [] (map (\<lambda>c. (c, None)) (take i found)) [] s = ((None, take i dl,
               mi), sa) \<and>
           place_id (found ! i) = Some pid \<and> gmaps_place g pid sa = (Inr r, sb) \<and>
           dl ! i = (found ! i,
               Some (case result r of None \<Rightarrow> no_details | Some x \<Rightarrow> x))"
proof -
  from assms(2) have "i < length (map (\<lambda>c. (c, None :: details option)) found)" by simp
  from place_loop_nth [OF assms(1) this] assms(2) show ?thesis
    by (simp add: take_map)
qed

lemma processing_ok_inv:
  assumes "processing m g V S L s = ((None, l), s')"
  shows "\<exists>p pr s1.
           m (model_input V S) = Inr p \<and>
           gmaps_places g (specialist_of p @ '' in '' @ L) s = (Inr pr, s1) \<and>
           place_loop g [] (map (\<lambda>c. (c, None))
               (take 5 (case results pr of None \<Rightarrow> [] | Some rs \<Rightarrow> rs))) [] s1
             = ((None, doctors_list l, map_data_list l), s') \<and>
           prediction l = Some p \<and> specialist l = Some (specialist_of p)"
  using assms
  by (auto simp: processing_def Let_def split: sum.splits prod.splits)

lemma ok_processing_raised:
  "fst (fst ok_processing) = None"
  by code_simp

section \<open>Length and order of the enriched list\<close>

text \<open>
  Claim C4. When the Flask endpoint answers 200, its doctors list has one entry per
  search candidate kept (the first five of the provider's results, so at most five);
  the entry at each position is the one built from the answer to the fetch issued for
  the candidate at that position, in the state the loop had reached there; and the
  fetches were issued one after the other in the order of the candidates. When the
  \<open>try\<close> block of the Streamlit page ends without an exception, its doctors list is
  the list of kept candidates in the provider's order, each with the detail record
  fetched for it. Fetches are sequential in both front ends: no fetch completes out
  of order.
\<close>

theorem enrichment_keeps_order:
  "(predict b data s = ((body, 200), s') \<longrightarrow>
      (\<exists>g q pr s1 pids p sp ds.
          gmaps b = Some g \<and> gmaps_places g q s = (Inr pr, s1) \<and>
          map place_id (take 5 (case results pr of None \<Rightarrow> [] | Some rs \<Rightarrow> rs)) = map Some pids \<and>
          body = JObj [(''predicted_disease'', JStr p), (''specialist'', JStr sp),
                       (''doctors'', JList ds)] \<and>
          length ds
              = min 5 (length (case results pr of None \<Rightarrow> [] | Some rs \<Rightarrow> rs)) \<and>
          length ds \<le> 5 \<and>
          length ds = length pids \<and>
          (\<forall>i<length ds. \<exists>sa r sb.
             details_loop g (take i (take 5 (case results pr of None \<Rightarrow> [] | Some rs \<Rightarrow> rs))) [] s1
               = (Inr (take i ds), sa) \<and>
             gmaps_place g (pids ! i) sa = (Inr r, sb) \<and>
             doctor_entry (case result r of None \<Rightarrow> no_details | Some x \<Rightarrow> x) (pids ! i)
               = Inr (ds ! i)) \<and>
          calls s' = calls s
              @ PlacesCall q ''doctor'' # map (\<lambda>pid. PlaceCall pid place_fields) pids))
   \<and>
   (processing m g' V S L t = ((None, l), t') \<longrightarrow>
      (\<exists>q pr t1 pids.
          gmaps_places g' q t = (Inr pr, t1) \<and>
          map place_id (take 5 (case results pr of None \<Rightarrow> [] | Some rs \<Rightarrow> rs)) = map Some pids \<and>
          map fst (doctors_list l)
              = take 5 (case results pr of None \<Rightarrow> [] | Some rs \<Rightarrow> rs) \<and>
          length (doctors_list l)
              = min 5 (length (case results pr of None \<Rightarrow> [] | Some rs \<Rightarrow> rs)) \<and>
          length (doctors_list l) \<le> 5 \<and>
          length (doctors_list l) = length pids \<and>
          (\<forall>i<length (doctors_list l). \<exists>mi sa r sb.
             place_loop g' [] (map (\<lambda>c. (c, None))
                 (take i (take 5 (case results pr of None \<Rightarrow> [] | Some rs \<Rightarrow> rs)))) [] t1
               = ((None, take i (doctors_list l), mi), sa) \<and>
             gmaps_place g' (pids ! i) sa = (Inr r, sb) \<and>
             doctors_list l ! i
               = (take 5 (case results pr of None \<Rightarrow> [] | Some rs \<Rightarrow> rs) ! i,
                  Some (case result r of None \<Rightarrow> no_details | Some x \<Rightarrow> x))) \<and>
          calls t' = calls t
              @ PlacesCall q ''doctor'' # map (\<lambda>pid. PlaceCall pid place_fields) pids))"
proof (intro conjI impI)
  assume a: "predict b data s = ((body, 200), s')"
  then obtain g L p and pr :: places_response and s1 ds where
    g: "gmaps b = Some g" and
    search: "gmaps_places g (specialist_of p @ '' in '' @ L) s = (Inr pr, s1)" and
    loop: "details_loop g (take 5 (case results pr of None \<Rightarrow> [] | Some rs \<Rightarrow> rs)) [] s1 = (Inr ds, s')" and
    body: "body = JObj [(''predicted_disease'', JStr p), (''specialist'', JStr (specialist_of p)),
                  (''doctors'', JList ds)]"
    by (rule predict_success_inv) blast
  let ?found = "take 5 (case results pr of None \<Rightarrow> [] | Some rs \<Rightarrow> rs)"
  from details_loop_ok [OF loop] obtain pids where
    ids: "map place_id ?found = map Some pids" and
    len: "length ds = length ?found" and
    log1: "calls s' = calls s1 @ map (\<lambda>pid. PlaceCall pid place_fields) pids"
    by auto
  from ids have lenp: "length pids = length ?found" by (metis length_map)
  from len have len5: "length ds
      = min 5 (length (case results pr of None \<Rightarrow> [] | Some rs \<Rightarrow> rs))"
    by (simp add: min.commute)
  from len5 have le5: "length ds \<le> 5" by simp
  from len lenp have lend: "length ds = length pids" by simp
  have each: "\<exists>sa r sb.
             details_loop g (take i ?found) [] s1 = (Inr (take i ds), sa) \<and>
             gmaps_place g (pids ! i) sa = (Inr r, sb) \<and>
             doctor_entry (case result r of None \<Rightarrow> no_details | Some x \<Rightarrow> x) (pids ! i)
               = Inr (ds ! i)"
    if i: "i < length ds" for i
  proof -
    from i len have il: "i < length ?found" by simp
    from details_loop_nth [OF loop il] obtain sa pid r sb where
      pin: "details_loop g (take i ?found) [] s1 = (Inr (take i ds), sa)"
           "place_id (?found ! i) = Some pid" "gmaps_place g pid sa = (Inr r, sb)"
           "doctor_entry (case result r of None \<Rightarrow> no_details | Some x \<Rightarrow> x) pid = Inr (ds ! i)"
      by (elim exE conjE) (rule that, simp_all)
    from ids il lenp have "place_id (?found ! i) = Some (pids ! i)"
      by (metis nth_map)
    with pin(2) have "pid = pids ! i" by simp
    with pin show ?thesis by blast
  qed
  then have all: "\<forall>i<length ds. \<exists>sa r sb.
             details_loop g (take i ?found) [] s1 = (Inr (take i ds), sa) \<and>
             gmaps_place g (pids ! i) sa = (Inr r, sb) \<and>
             doctor_entry (case result r of None \<Rightarrow> no_details | Some x \<Rightarrow> x) (pids ! i)
               = Inr (ds ! i)"
    by (intro allI impI)
  from gmaps_places_log [OF search] log1 have
    log: "calls s' = calls s @ PlacesCall (specialist_of p @ '' in '' @ L) ''doctor''
             # map (\<lambda>pid. PlaceCall pid place_fields) pids"
    by simp
  from g search ids body len5 le5 lend all log
  show "\<exists>g q pr s1 pids p sp ds.
          gmaps b = Some g \<and> gmaps_places g q s = (Inr pr, s1) \<and>
          map place_id (take 5 (case results pr of None \<Rightarrow> [] | Some rs \<Rightarrow> rs)) = map Some pids \<and>
          body = JObj [(''predicted_disease'', JStr p), (''specialist'', JStr sp),
                       (''doctors'', JList ds)] \<and>
          length ds
              = min 5 (length (case results pr of None \<Rightarrow> [] | Some rs \<Rightarrow> rs)) \<and>
          length ds \<le> 5 \<and>
          length ds = length pids \<and>
          (\<forall>i<length ds. \<exists>sa r sb.
             details_loop g (take i (take 5 (case results pr of None \<Rightarrow> [] | Some rs \<Rightarrow> rs))) [] s1
               = (Inr (take i ds), sa) \<and>
             gmaps_place g (pids ! i) sa = (Inr r, sb) \<and>
             doctor_entry (case result r of None \<Rightarrow> no_details | Some x \<Rightarrow> x) (pids ! i)
               = Inr (ds ! i)) \<and>
          calls s' = calls s
              @ PlacesCall q ''doctor'' # map (\<lambda>pid. PlaceCall pid place_fields) pids"
    by (intro exI conjI)
next
  assume a: "processing m g' V S L t = ((None, l), t')"
  from processing_ok_inv [OF a] obtain p and pr :: places_response and t1 where
    search: "gmaps_places g' (specialist_of p @ '' in '' @ L) t = (Inr pr, t1)" and
    loop: "place_loop g' [] (map (\<lambda>c. (c, None))
               (take 5 (case results pr of None \<Rightarrow> [] | Some rs \<Rightarrow> rs))) [] t1
             = ((None, doctors_list l, map_data_list l), t')"
    by blast
  let ?found = "take 5 (case results pr of None \<Rightarrow> [] | Some rs \<Rightarrow> rs)"
  from place_loop_fresh_ok [OF loop] obtain pids where
    ids: "map place_id ?found = map Some pids" and
    len: "length (doctors_list l) = length ?found" and
    firsts: "map fst (doctors_list l) = ?found" and
    log1: "calls t' = calls t1 @ map (\<lambda>pid. PlaceCall pid place_fields) pids"
    by blast
  from ids have lenp: "length pids = length ?found" by (metis length_map)
  from len have len5:
    "length (doctors_list l)
        = min 5 (length (case results pr of None \<Rightarrow> [] | Some rs \<Rightarrow> rs))"
    by (simp add: min.commute)
  from len5 have le5: "length (doctors_list l) \<le> 5" by simp
  from len lenp have lend: "length (doctors_list l) = length pids" by simp
  have each: "\<exists>mi sa r sb.
             place_loop g' [] (map (\<lambda>c. (c, None)) (take i ?found)) [] t1
               = ((None, take i (doctors_list l), mi), sa) \<and>
             gmaps_place g' (pids ! i) sa = (Inr r, sb) \<and>
             doctors_list l ! i
               = (?found ! i,
                   Some (case result r of None \<Rightarrow> no_details | Some x \<Rightarrow> x))"
    if i: "i < length (doctors_list l)" for i
  proof -
    from i len have il: "i < length ?found" by simp
    from place_loop_fresh_nth [OF loop il] obtain mi sa pid r sb where
      pin: "place_loop g' [] (map (\<lambda>c. (c, None)) (take i ?found)) [] t1
              = ((None, take i (doctors_list l), mi), sa)"
           "place_id (?found ! i) = Some pid" "gmaps_place g' pid sa = (Inr r, sb)"
           "doctors_list l ! i
              = (?found ! i,
                  Some (case result r of None \<Rightarrow> no_details | Some x \<Rightarrow> x))"
      by (elim exE conjE) (rule that)
    from ids il lenp have "place_id (?found ! i) = Some (pids ! i)"
      by (metis nth_map)
    with pin(2) have "pid = pids ! i" by simp
    with pin show ?thesis by blast
  qed
  then have all: "\<forall>i<length (doctors_list l). \<exists>mi sa r sb.
             place_loop g' [] (map (\<lambda>c. (c, None)) (take i ?found)) [] t1
               = ((None, take i (doctors_list l), mi), sa) \<and>
             gmaps_place g' (pids ! i) sa = (Inr r, sb) \<and>
             doctors_list l ! i
               = (?found ! i,
                   Some (case result r of None \<Rightarrow> no_details | Some x \<Rightarrow> x))"
    by (intro allI impI)
  from gmaps_places_log [OF search] log1 have
    log: "calls t' = calls t @ PlacesCall (specialist_of p @ '' in '' @ L) ''doctor''
             # map (\<lambda>pid. PlaceCall pid place_fields) pids"
    by simp
  from search ids firsts len5 le5 lend all log
  show "\<exists>q pr t1 pids.
          gmaps_places g' q t = (Inr pr, t1) \<and>
          map place_id (take 5 (case results pr of None \<Rightarrow> [] | Some rs \<Rightarrow> rs)) = map Some pids \<and>
          map fst (doctors_list l)
              = take 5 (case results pr of None \<Rightarrow> [] | Some rs \<Rightarrow> rs) \<and>
          length (doctors_list l)
              = min 5 (length (case results pr of None \<Rightarrow> [] | Some rs \<Rightarrow> rs)) \<and>
          length (doctors_list l) \<le> 5 \<and>
          length (doctors_list l) = length pids \<and>
          (\<forall>i<length (doctors_list l). \<exists>mi sa r sb.
             place_loop g' [] (map (\<lambda>c. (c, None))
                 (take i (take 5 (case results pr of None \<Rightarrow> [] | Some rs \<Rightarrow> rs)))) [] t1
               = ((None, take i (doctors_list l), mi), sa) \<and>
             gmaps_place g' (pids ! i) sa = (Inr r, sb) \<and>
             doctors_list l ! i
               = (take 5 (case results pr of None \<Rightarrow> [] | Some rs \<Rightarrow> rs) ! i,
                  Some (case result r of None \<Rightarrow> no_details | Some x \<Rightarrow> x))) \<and>
          calls t' = calls t
              @ PlacesCall q ''doctor'' # map (\<lambda>pid. PlaceCall pid place_fields) pids"
    by (intro exI conjI)
qed

theorem enrichment_keeps_order_witness:
  "snd (fst ok_response) = 200 \<and>
   (\<exists>g q pr s1 pids p sp ds.
          gmaps (backend_with demo_model ok_client) = Some g \<and>
              gmaps_places g q start = (Inr pr, s1) \<and>
          map place_id (take 5 (case results pr of None \<Rightarrow> [] | Some rs \<Rightarrow> rs)) = map Some pids \<and>
          (fst (fst ok_response)) = JObj [(''predicted_disease'', JStr p), (''specialist'',
              JStr sp),
                       (''doctors'', JList ds)] \<and>
          length ds
              = min 5 (length (case results pr of None \<Rightarrow> [] | Some rs \<Rightarrow> rs)) \<and>
          length ds \<le> 5 \<and>
          length ds = length pids \<and>
          (\<forall>i<length ds. \<exists>sa r sb.
             details_loop g (take i (take 5 (case results pr of None \<Rightarrow> [] | Some rs \<Rightarrow> rs))) [] s1
               = (Inr (take i ds), sa) \<and>
             gmaps_place g (pids ! i) sa = (Inr r, sb) \<and>
             doctor_entry (case result r of None \<Rightarrow> no_details | Some x \<Rightarrow> x) (pids ! i)
               = Inr (ds ! i)) \<and>
          calls (snd ok_response) = calls start
              @ PlacesCall q ''doctor'' # map (\<lambda>pid. PlaceCall pid place_fields) pids) \<and>
   fst (fst ok_processing) = None \<and>
   (\<exists>q pr t1 pids.
          gmaps_places ok_client q start = (Inr pr, t1) \<and>
          map place_id (take 5 (case results pr of None \<Rightarrow> [] | Some rs \<Rightarrow> rs)) = map Some pids \<and>
          map fst (doctors_list (snd (fst ok_processing)))
              = take 5 (case results pr of None \<Rightarrow> [] | Some rs \<Rightarrow> rs) \<and>
          length (doctors_list (snd (fst ok_processing)))
              = min 5 (length (case results pr of None \<Rightarrow> [] | Some rs \<Rightarrow> rs)) \<and>
          length (doctors_list (snd (fst ok_processing))) \<le> 5 \<and>
          length (doctors_list (snd (fst ok_processing))) = length pids \<and>
          (\<forall>i<length (doctors_list (snd (fst ok_processing))). \<exists>mi sa r sb.
             place_loop ok_client [] (map (\<lambda>c. (c, None))
                 (take i (take 5 (case results pr of None \<Rightarrow> [] | Some rs \<Rightarrow> rs)))) [] t1
               = ((None, take i (doctors_list (snd (fst ok_processing))), mi), sa) \<and>
             gmaps_place ok_client (pids ! i) sa = (Inr r, sb) \<and>
             doctors_list (snd (fst ok_processing)) ! i
               = (take 5 (case results pr of None \<Rightarrow> [] | Some rs \<Rightarrow> rs) ! i,
                  Some (case result r of None \<Rightarrow> no_details | Some x \<Rightarrow> x))) \<and>
          calls (snd ok_processing) = calls start
              @ PlacesCall q ''doctor'' # map (\<lambda>pid. PlaceCall pid place_fields) pids)"
proof -
  let ?r = "ok_response"
  let ?p = "ok_processing"
  have st: "snd (fst ?r) = 200" by (rule ok_run_status)
  then have h1: "?r = ((fst (fst ?r), 200), snd ?r)" by (simp add: prod_eq_iff)
  have ra: "fst (fst ?p) = None" by (rule ok_processing_raised)
  then have h2: "?p = ((None, snd (fst ?p)), snd ?p)" by (simp add: prod_eq_iff)
  note a = enrichment_keeps_order [THEN conjunct1, THEN mp, OF h1]
  note b = enrichment_keeps_order [THEN conjunct2, THEN mp, OF h2]
  from st a ra b show ?thesis by (intro conjI)
qed

section \<open>Facts about whole requests\<close>

lemma predict_valid:
  assumes "model b = Some m" "gmaps b = Some g"
    and "req_symptoms data = Some S" "S \<noteq> []" "req_location data = Some L" "L \<noteq> []"
  shows "predict b data s =
     (case m (model_input (symptoms b) S) of
        Inl e \<Rightarrow>
          ((JObj [(''error'', JStr (str e))], 500),
           s\<lparr>stdout := stdout s @ [''An error occurred during prediction: ''
               @ str e]\<rparr>)
      | Inr p \<Rightarrow>
          (case gmaps_places g (specialist_of p @ '' in '' @ L) s of
             (Inl e, s1) \<Rightarrow>
               ((JObj [(''error'', JStr (str e))], 500),
                s1\<lparr>stdout := stdout s1 @ [''An error occurred during prediction: ''
                    @ str e]\<rparr>)
           | (Inr pr, s1) \<Rightarrow>
               (case details_loop g (take 5 (case results pr of None \<Rightarrow> [] | Some rs \<Rightarrow> rs)) [] s1 of
                  (Inl e, s2) \<Rightarrow>
                    ((JObj [(''error'', JStr (str e))], 500),
                     s2\<lparr>stdout := stdout s2 @ [''An error occurred during prediction: ''
                         @ str e]\<rparr>)
                | (Inr ds, s2) \<Rightarrow>
                    ((JObj [(''predicted_disease'', JStr p), (''specialist'',
                        JStr (specialist_of p)),
                            (''doctors'', JList ds)], 200), s2))))"
  using assms
  by (simp add: predict_def predict_try_def Let_def jsonify_error_eq dict_literal_def
           split: sum.splits prod.splits)

lemma predict_rejects:
  assumes "model b = Some m" "gmaps b = Some g"
    and "req_symptoms data = None \<or> req_symptoms data = Some []
         \<or> req_location data = None \<or> req_location data = Some []"
  shows "predict b data s = ((JObj [(''error'', JStr ''Missing symptoms or location.'')], 400),
      s)"
  using assms
  by (auto simp: predict_def predict_try_def Let_def jsonify_error_eq split: option.splits)

lemma predict_unconfigured:
  assumes "model b = None \<or> gmaps b = None"
  shows "predict b data s =
           ((JObj [(''error'', JStr ''Backend server is not configured correctly.'')], 500), s)"
  using assms
  by (auto simp: predict_def jsonify_error_eq split: option.splits)

lemma find_doctor_valid:
  assumes "model b = Some m" "gmaps b
      = Some g" "symptoms b \<noteq> []" "S \<noteq> []" "L \<noteq> []"
  shows "find_doctor b True S L s =
     (case processing m g (symptoms b) S L s of
        ((raised, l), s') \<Rightarrow>
          (Status ''Finding recommendations...'' # written l @
           (case raised of
              None \<Rightarrow> [StatusUpdate ''Analysis Complete!'' ''complete'']
            | Some e \<Rightarrow>
                [StatusUpdate ''Error processing request'' ''error'',
                 Error (''An error occurred: '' @ str e)]) @
           display l, s'))"
  using assms by (simp add: find_doctor_def)

lemma processing_classifier_raises:
  assumes "m (model_input V S) = Inl e"
  shows "processing m g V S L s =
     ((Some e, \<lparr>prediction = None, specialist = None, doctors_list = [],
         map_data_list = [],
                written = [Write ''Analyzing your symptoms...'']\<rparr>), s)"
  using assms by (simp add: processing_def)

lemma processing_search_raises:
  assumes "m (model_input V S) = Inr p"
    and "gmaps_places g (specialist_of p @ '' in '' @ L) s = (Inl e, s1)"
  shows "processing m g V S L s =
     ((Some e, \<lparr>prediction = Some p, specialist = Some (specialist_of p),
         doctors_list = [],
                map_data_list = [],
                written = [Write ''Analyzing your symptoms...'',
                           Write ''Identifying the right specialist...'',
                           Write (''Searching for '' @ specialist_of p @ ''s near '' @ L
                               @ ''...'')]\<rparr>), s1)"
  using assms by (simp add: processing_def Let_def)

lemma processing_loop:
  assumes "m (model_input V S) = Inr p"
    and "gmaps_places g (specialist_of p @ '' in '' @ L) s = (Inr pr, s1)"
    and "place_loop g [] (map (\<lambda>c. (c, None))
            (take 5 (case results pr of None \<Rightarrow> [] | Some rs \<Rightarrow> rs))) [] s1
                = ((raised, dl, ml), s2)"
  shows "processing m g V S L s =
     ((raised, \<lparr>prediction = Some p, specialist = Some (specialist_of p),
         doctors_list = dl,
                map_data_list = ml,
                written = [Write ''Analyzing your symptoms...'',
                           Write ''Identifying the right specialist...'',
                           Write (''Searching for '' @ specialist_of p @ ''s near '' @ L
                               @ ''...'')]\<rparr>), s2)"
  using assms by (simp add: processing_def Let_def)

lemma display_predicted:
  "display \<lparr>prediction = Some p, specialist = Some (specialist_of p), doctors_list = dl,
            map_data_list = ml, written = w\<rparr> =
     (if p \<noteq> [] then
        [Success (''**Predicted Condition:** '' @ p), Balloons,
         Markdown (''### Recommended Specialist: **'' @ specialist_of p @ ''**''), Divider,
         Subheader (''Top 5 '' @ specialist_of p @ ''s near you:'')] @
        (if dl = [] then
           [Warning ''No doctors found matching your criteria. Try a broader location.'']
         else
           (case cards dl of
              (shown, ok) \<Rightarrow>
                shown @
                (if ok \<and> ml \<noteq> [] then
                   [Divider, Subheader ''Doctor Locations:'', MapChart ml]
                 else [])))
      else [])"
  by (simp add: display_def specialist_of_nonempty split: prod.splits)

lemma display_nothing:
  "display \<lparr>prediction = None, specialist = None, doctors_list = dl,
            map_data_list = ml, written = w\<rparr> = []"
  by (simp add: display_def)

lemma place_loop_length:
  "place_loop g seen todo ml s = ((raised, dl, ml'), s') \<Longrightarrow>
     length dl = length seen + length todo"
proof (induction todo arbitrary: seen ml s)
  case Nil
  then show ?case by simp
next
  case (Cons x todo)
  show ?case
  proof (cases "place_id (fst x)")
    case None
    with Cons.prems show ?thesis by auto
  next
    case (Some pid)
    obtain r s1 where f: "gmaps_place g pid s = (r, s1)"
      by (cases "gmaps_place g pid s") auto
    show ?thesis
    proof (cases r)
      case (Inl e)
      with Cons.prems Some f show ?thesis by auto
    next
      case (Inr pd)
      define d where "d
          = (case result pd of None \<Rightarrow> no_details | Some r \<Rightarrow> r)"
      show ?thesis
      proof (cases "map_point_of d")
        case (Inl e)
        with Cons.prems Some f Inr show ?thesis by (auto simp: d_def Let_def)
      next
        case point: (Inr point)
        with Cons.prems Some f Inr have
          "\<exists>ml1. place_loop g (seen @ [(fst x, Some d)]) todo ml1 s1 = ((raised, dl, ml'),
              s')"
          by (cases point) (auto simp: d_def Let_def)
        then obtain ml1 where
          "place_loop g (seen @ [(fst x, Some d)]) todo ml1 s1 = ((raised, dl, ml'), s')"
          by blast
        from Cons.IH [OF this] show ?thesis by simp
      qed
    qed
  qed
qed






lemma processing_written:
  "\<exists>rest. written (snd (fst (processing m g V S L s)))
      = Write ''Analyzing your symptoms...'' # rest"
  by (simp add: processing_def Let_def split: sum.splits prod.splits)

section \<open>Requests without a location\<close>

text \<open>
  Claim C6, as the code has it. A request whose location is empty or missing is
  rejected and leaves the state as it was: no call to the Places client is issued
  and nothing is printed. The Flask endpoint, once configured, answers 400 with the
  one message "Missing symptoms or location.", which it also gives for missing
  symptoms. The Streamlit page shows "Please enter your location." when symptoms were
  selected and "Please select at least one symptom." when none were.
\<close>

theorem empty_location_rejected:
  assumes "req_location data = None \<or> req_location data = Some []"
  shows "snd (predict b data s) = s \<and>
         (model b \<noteq> None \<and> gmaps b \<noteq> None \<longrightarrow>
            fst (predict b data s) = (JObj [(''error'', JStr ''Missing symptoms or location.'')],
                400)) \<and>
         snd (find_doctor b pressed S [] s) = s \<and>
         (model b \<noteq> None \<and> gmaps b \<noteq> None
             \<and> symptoms b \<noteq> [] \<longrightarrow>
            fst (find_doctor b True S [] s) =
              [Warning (if S = [] then ''Please select at least one symptom.''
                        else ''Please enter your location.'')])"
proof (intro conjI impI)
  show "snd (predict b data s) = s"
  proof (cases "model b = None \<or> gmaps b = None")
    case True
    then show ?thesis by (simp add: predict_unconfigured)
  next
    case False
    then obtain m g where "model b = Some m" "gmaps b = Some g" by auto
    with assms show ?thesis by (simp add: predict_rejects)
  qed
next
  assume "model b \<noteq> None \<and> gmaps b \<noteq> None"
  then obtain m g where "model b = Some m" "gmaps b = Some g" by auto
  with assms show "fst (predict b data s) =
      (JObj [(''error'', JStr ''Missing symptoms or location.'')], 400)"
    by (simp add: predict_rejects)
next
  show "snd (find_doctor b pressed S [] s) = s"
    by (simp add: find_doctor_def split: option.splits)
next
  assume "model b \<noteq> None \<and> gmaps b \<noteq> None \<and> symptoms b \<noteq> []"
  then show "fst (find_doctor b True S [] s) =
              [Warning (if S = [] then ''Please select at least one symptom.''
                        else ''Please enter your location.'')]"
    by (auto simp: find_doctor_def)
qed

theorem empty_location_rejected_witness:
  "snd (predict (backend_with demo_model ok_client)
          \<lparr>req_symptoms = Some [''itching''],
              req_location = Some []\<rparr> start) = start \<and>
   fst (predict (backend_with demo_model ok_client)
          \<lparr>req_symptoms = Some [''itching''], req_location = Some []\<rparr> start)
     = (JObj [(''error'', JStr ''Missing symptoms or location.'')], 400) \<and>
   find_doctor (backend_with demo_model ok_client) True [''itching''] [] start
     = ([Warning ''Please enter your location.''], start)"
proof -
  have h: "req_location \<lparr>req_symptoms = Some [''itching''],
      req_location = Some []\<rparr> = None
           \<or> req_location \<lparr>req_symptoms = Some [''itching''],
               req_location = Some []\<rparr> = Some []"
    by simp
  have c: "model (backend_with demo_model ok_client) \<noteq> None \<and>
           gmaps (backend_with demo_model ok_client) \<noteq> None \<and>
           symptoms (backend_with demo_model ok_client) \<noteq> []"
    by (simp add: backend_with_def demo_symptoms_def)
  from empty_location_rejected
         [OF h, of "backend_with demo_model ok_client" start True "[''itching'']"] c
  show ?thesis by (simp add: prod_eq_iff)
qed

text \<open>
  The claim as stated names a location error of its own. On the Flask endpoint the
  answer to a request without location is the answer to a request without symptoms,
  and the Streamlit page with neither input reports the symptoms only.
\<close>

theorem empty_location_error_not_distinct:
  "fst (predict (backend_with demo_model ok_client)
          \<lparr>req_symptoms = Some [''itching''], req_location = Some []\<rparr> start)
     = (JObj [(''error'', JStr ''Missing symptoms or location.'')], 400) \<and>
   fst (predict (backend_with demo_model ok_client)
          \<lparr>req_symptoms = Some [], req_location = Some ''New Delhi''\<rparr> start)
     = (JObj [(''error'', JStr ''Missing symptoms or location.'')], 400) \<and>
   fst (find_doctor (backend_with demo_model ok_client) True [] [] start)
     = [Warning ''Please select at least one symptom.'']"
  by (simp add: predict_def predict_try_def backend_with_def jsonify_error_eq find_doctor_def
        demo_symptoms_def)

section \<open>Requests without symptoms\<close>

text \<open>
  Claim C7, as the code has it. A request with an empty or missing symptom list is
  rejected before the encoding: the Streamlit page shows the warning "Please select
  at least one symptom.", the Flask endpoint answers 400 with "Missing symptoms or
  location.", the message it also gives for an empty location. With symptoms and a
  location present the encoding, a total function, does not fail: the Flask
  endpoint never answers 400 and the Streamlit page starts the analysis.
\<close>

theorem empty_symptoms_rejected:
  "(model b \<noteq> None \<and> gmaps b \<noteq> None \<and>
      (req_symptoms data = None \<or> req_symptoms data = Some []) \<longrightarrow>
      predict b data s = ((JObj [(''error'', JStr ''Missing symptoms or location.'')], 400),
          s)) \<and>
   (model b \<noteq> None \<and> gmaps b \<noteq> None
       \<and> symptoms b \<noteq> [] \<longrightarrow>
      find_doctor b True [] L s = ([Warning ''Please select at least one symptom.''], s)) \<and>
   (model b \<noteq> None \<and> gmaps b \<noteq> None \<and> req_symptoms data = Some S
       \<and> S \<noteq> [] \<and>
      req_location data = Some L \<and> L \<noteq> [] \<longrightarrow>
      snd (fst (predict b data s)) \<noteq> 400) \<and>
   (model b \<noteq> None \<and> gmaps b \<noteq> None \<and> symptoms b \<noteq> []
       \<and> S \<noteq> [] \<and> L \<noteq> [] \<longrightarrow>
      (\<exists>rest. fst (find_doctor b True S L s) =
         Status ''Finding recommendations...'' # Write ''Analyzing your symptoms...'' # rest))"
proof (intro conjI impI)
  assume a: "model b \<noteq> None \<and> gmaps b \<noteq> None \<and>
      (req_symptoms data = None \<or> req_symptoms data = Some [])"
  then obtain m g where "model b = Some m" "gmaps b = Some g" by auto
  with a show "predict b data s =
      ((JObj [(''error'', JStr ''Missing symptoms or location.'')], 400), s)"
    by (intro predict_rejects) auto
next
  assume "model b \<noteq> None \<and> gmaps b \<noteq> None \<and> symptoms b \<noteq> []"
  then show "find_doctor b True [] L s = ([Warning ''Please select at least one symptom.''], s)"
    by (auto simp: find_doctor_def)
next
  assume a: "model b \<noteq> None \<and> gmaps b \<noteq> None
      \<and> req_symptoms data = Some S \<and> S \<noteq> [] \<and>
      req_location data = Some L \<and> L \<noteq> []"
  then obtain m g where mg: "model b = Some m" "gmaps b = Some g" by auto
  from a have r: "req_symptoms data = Some S" "S \<noteq> []" "req_location data
      = Some L" "L \<noteq> []"
    by simp_all
  show "snd (fst (predict b data s)) \<noteq> 400"
    unfolding predict_valid [OF mg r]
    by (simp split: sum.splits prod.splits)
next
  assume a: "model b \<noteq> None \<and> gmaps b \<noteq> None
      \<and> symptoms b \<noteq> [] \<and> S \<noteq> [] \<and> L \<noteq> []"
  then obtain m g where mg: "model b = Some m" "gmaps b = Some g" by auto
  from a have r: "symptoms b \<noteq> []" "S \<noteq> []" "L \<noteq> []" by simp_all
  obtain raised l s' where pr: "processing m g (symptoms b) S L s = ((raised, l), s')"
    by (metis surj_pair)
  from processing_written [of m g "symptoms b" S L s] pr obtain rest where
    w: "written l = Write ''Analyzing your symptoms...'' # rest"
    by auto
  show "\<exists>rest. fst (find_doctor b True S L s) =
         Status ''Finding recommendations...'' # Write ''Analyzing your symptoms...'' # rest"
    unfolding find_doctor_valid [OF mg r] pr
    using w by simp
qed

theorem empty_symptoms_rejected_witness:
  "predict (backend_with demo_model ok_client)
      \<lparr>req_symptoms = Some [], req_location = Some ''Varanasi''\<rparr> start
     = ((JObj [(''error'', JStr ''Missing symptoms or location.'')], 400), start) \<and>
   find_doctor (backend_with demo_model ok_client) True [] ''Varanasi'' start
     = ([Warning ''Please select at least one symptom.''], start) \<and>
   snd (fst (predict (backend_with demo_model ok_client) demo_request start)) \<noteq> 400 \<and>
   (\<exists>rest. fst (find_doctor (backend_with demo_model ok_client) True [''headache''] ''Varanasi'' start)
      = Status ''Finding recommendations...'' # Write ''Analyzing your symptoms...'' # rest)"
proof -
  let ?b = "backend_with demo_model ok_client"
  have c: "model ?b \<noteq> None \<and> gmaps ?b \<noteq> None \<and> symptoms ?b \<noteq> []"
    by (simp add: backend_with_def demo_symptoms_def)
  note t1 = empty_symptoms_rejected
              [of ?b "\<lparr>req_symptoms = Some [],
                  req_location = Some ''Varanasi''\<rparr>" start
                  "''Varanasi''" "[''headache'']"]
  note t2 = empty_symptoms_rejected
              [of ?b demo_request start "''New Delhi''" "[''itching'', ''skin_rash'']"]
  from t1 c have 1: "predict ?b \<lparr>req_symptoms = Some [],
      req_location = Some ''Varanasi''\<rparr> start
     = ((JObj [(''error'', JStr ''Missing symptoms or location.'')], 400), start)"
    by simp
  from t1 c have 2: "find_doctor ?b True [] ''Varanasi'' start
     = ([Warning ''Please select at least one symptom.''], start)"
    by simp
  from t2 c have 3: "snd (fst (predict ?b demo_request start)) \<noteq> 400"
    by (simp add: demo_request_def)
  from t1 c have 4: "\<exists>rest. fst (find_doctor ?b True [''headache''] ''Varanasi'' start)
      = Status ''Finding recommendations...'' # Write ''Analyzing your symptoms...'' # rest"
    by simp
  from 1 2 3 4 show ?thesis by blast
qed

text \<open>
  The claim as stated gives the missing symptoms an error kind of their own. On the
  Flask endpoint the whole outcome of a request without symptoms equals that of a
  request without location.
\<close>

theorem empty_symptoms_error_not_distinct:
  "predict (backend_with demo_model ok_client)
      \<lparr>req_symptoms = Some [], req_location = Some ''Varanasi''\<rparr> start
   = predict (backend_with demo_model ok_client)
      \<lparr>req_symptoms = Some [''headache''], req_location = Some []\<rparr> start"
  by (simp add: predict_def predict_try_def backend_with_def)

section \<open>More runs of the test doubles\<close>

lemma place_loop_raised_nonempty:
  assumes "place_loop g seen todo ml s = ((Some e, dl, ml'), s')"
  shows "dl \<noteq> []"
proof (cases todo)
  case Nil
  with assms show ?thesis by simp
next
  case (Cons x xs)
  with place_loop_length [OF assms] show ?thesis by auto
qed

lemma demo_prediction:
  "demo_model (model_input demo_symptoms [''itching'', ''skin_rash'']) = Inr ''Fungal infection''"
  "demo_model (model_input demo_symptoms [''headache'']) = Inr ''Migraine''"
  by (simp_all add: demo_model_def model_input_def demo_symptoms_def dict_has_def dict_get_def)

lemma demo_specialists:
  "specialist_of ''Fungal infection'' = ''Dermatologist''"
  "specialist_of ''Migraine'' = ''Neurologist''"
  by (simp_all add: specialist_of_def dict_get_def specialty_map_eq)

lemma empty_search:
  "gmaps_places empty_client (specialist_of ''Fungal infection'' @ '' in '' @ ''New Delhi'') start
     = (Inr \<lparr>results = Some []\<rparr>,
        \<lparr>world = 1, calls = [PlacesCall ''Dermatologist in New Delhi'' ''doctor''],
            stdout = []\<rparr>)"
  by (simp add: gmaps_places_def empty_client_def start_def demo_specialists)

lemma down_search:
  "gmaps_places down_client (specialist_of ''Fungal infection'' @ '' in '' @ ''New Delhi'') start
     = (Inl (Exn ''ApiError'' ''REQUEST_DENIED (The provided API key is invalid.)''),
        \<lparr>world = 1, calls = [PlacesCall ''Dermatologist in New Delhi'' ''doctor''],
            stdout = []\<rparr>)"
  by (simp add: gmaps_places_def down_client_def start_def demo_specialists)

section \<open>A search without candidates\<close>

text \<open>
  Claim C8, as the code has it. When the search call returns no candidates (an empty
  or missing \<open>results\<close>), the request completes as a success. The Flask endpoint
  answers 200 with exactly the keys \<open>predicted_disease\<close>, \<open>specialist\<close> and
  \<open>doctors\<close>, the last one the empty list: it has no map-points field and no
  separate empty-results indicator. The Streamlit page marks the status complete
  and, for a non-empty predicted label, shows the condition, the specialist and the
  warning "No doctors found matching your criteria. Try a broader location.", with
  no card and no map.
\<close>

theorem no_candidates_success:
  assumes "model b = Some m" "gmaps b = Some g"
    and "S \<noteq> []" "L \<noteq> []"
    and "m (model_input (symptoms b) S) = Inr p"
    and "gmaps_places g (specialist_of p @ '' in '' @ L) s = (Inr pr, s1)"
    and "results pr = None \<or> results pr = Some []"
  shows "(req_symptoms data = Some S \<and> req_location data = Some L \<longrightarrow>
            predict b data s =
              ((JObj [(''predicted_disease'', JStr p), (''specialist'', JStr (specialist_of p)),
                      (''doctors'', JList [])], 200), s1)) \<and>
         (symptoms b \<noteq> [] \<longrightarrow>
            find_doctor b True S L s =
              ([Status ''Finding recommendations...'',
                Write ''Analyzing your symptoms...'',
                Write ''Identifying the right specialist...'',
                Write (''Searching for '' @ specialist_of p @ ''s near '' @ L @ ''...''),
                StatusUpdate ''Analysis Complete!'' ''complete''] @
               (if p \<noteq> [] then
                  [Success (''**Predicted Condition:** '' @ p), Balloons,
                   Markdown (''### Recommended Specialist: **'' @ specialist_of p @ ''**''),
                       Divider,
                   Subheader (''Top 5 '' @ specialist_of p @ ''s near you:''),
                   Warning ''No doctors found matching your criteria. Try a broader location.'']
                else []), s1))"
proof (intro conjI impI)
  from assms(7) have found: "take 5 (case results pr of None \<Rightarrow> [] | Some rs \<Rightarrow> rs) = []"
    by auto
  {
    assume r: "req_symptoms data = Some S \<and> req_location data = Some L"
    then have "predict b data s =
       (case m (model_input (symptoms b) S) of
        Inl e \<Rightarrow>
          ((JObj [(''error'', JStr (str e))], 500),
           s\<lparr>stdout := stdout s @ [''An error occurred during prediction: ''
               @ str e]\<rparr>)
      | Inr p \<Rightarrow>
          (case gmaps_places g (specialist_of p @ '' in '' @ L) s of
             (Inl e, s1) \<Rightarrow>
               ((JObj [(''error'', JStr (str e))], 500),
                s1\<lparr>stdout := stdout s1 @ [''An error occurred during prediction: ''
                    @ str e]\<rparr>)
           | (Inr pr, s1) \<Rightarrow>
               (case details_loop g (take 5 (case results pr of None \<Rightarrow> [] | Some rs \<Rightarrow> rs)) [] s1 of
                  (Inl e, s2) \<Rightarrow>
                    ((JObj [(''error'', JStr (str e))], 500),
                     s2\<lparr>stdout := stdout s2 @ [''An error occurred during prediction: ''
                         @ str e]\<rparr>)
                | (Inr ds, s2) \<Rightarrow>
                    ((JObj [(''predicted_disease'', JStr p), (''specialist'',
                        JStr (specialist_of p)),
                            (''doctors'', JList ds)], 200), s2))))"
      using assms(1-4) by (intro predict_valid) simp_all
    then show "predict b data s =
              ((JObj [(''predicted_disease'', JStr p), (''specialist'', JStr (specialist_of p)),
                      (''doctors'', JList [])], 200), s1)"
      using assms(5,6) found by simp
  }
  {
    assume v: "symptoms b \<noteq> []"
    have loop: "place_loop g [] (map (\<lambda>c. (c, None))
            (take 5 (case results pr of None \<Rightarrow> [] | Some rs \<Rightarrow> rs))) [] s1
                = ((None, [], []), s1)"
      using found by simp
    show "find_doctor b True S L s =
              ([Status ''Finding recommendations...'',
                Write ''Analyzing your symptoms...'',
                Write ''Identifying the right specialist...'',
                Write (''Searching for '' @ specialist_of p @ ''s near '' @ L @ ''...''),
                StatusUpdate ''Analysis Complete!'' ''complete''] @
               (if p \<noteq> [] then
                  [Success (''**Predicted Condition:** '' @ p), Balloons,
                   Markdown (''### Recommended Specialist: **'' @ specialist_of p @ ''**''),
                       Divider,
                   Subheader (''Top 5 '' @ specialist_of p @ ''s near you:''),
                   Warning ''No doctors found matching your criteria. Try a broader location.'']
                else []), s1)"
      unfolding find_doctor_valid [OF assms(1,2) v assms(3,4)]
        processing_loop [where m = m and V = "symptoms b" and S = S, OF assms(5,6) loop]
      by (simp add: display_predicted)
  }
qed

theorem no_candidates_success_witness:
  "predict (backend_with demo_model empty_client) demo_request start =
     ((JObj [(''predicted_disease'', JStr ''Fungal infection''), (''specialist'',
         JStr ''Dermatologist''),
             (''doctors'', JList [])], 200),
      \<lparr>world = 1, calls = [PlacesCall ''Dermatologist in New Delhi'' ''doctor''],
          stdout = []\<rparr>) \<and>
   fst (find_doctor (backend_with demo_model empty_client) True [''itching'', ''skin_rash'']
          ''New Delhi'' start) =
     [Status ''Finding recommendations...'',
      Write ''Analyzing your symptoms...'',
      Write ''Identifying the right specialist...'',
      Write ''Searching for Dermatologists near New Delhi...'',
      StatusUpdate ''Analysis Complete!'' ''complete'',
      Success ''**Predicted Condition:** Fungal infection'', Balloons,
      Markdown ''### Recommended Specialist: **Dermatologist**'', Divider,
      Subheader ''Top 5 Dermatologists near you:'',
      Warning ''No doctors found matching your criteria. Try a broader location.'']"
proof -
  let ?b = "backend_with demo_model empty_client"
  have 1: "model ?b = Some demo_model" and 2: "gmaps ?b = Some empty_client"
    by (simp_all add: backend_with_def)
  have 3: "[''itching'',
      ''skin_rash''] \<noteq> []" and 4: "''New Delhi'' \<noteq> []" by simp_all
  have 5: "demo_model (model_input (symptoms ?b) [''itching'',
      ''skin_rash'']) = Inr ''Fungal infection''"
    by (simp add: backend_with_def demo_prediction)
  have 7: "results \<lparr>results = Some []\<rparr> = None \<or> results \<lparr>results
      = Some []\<rparr> = Some []"
    by simp
  have r: "req_symptoms demo_request = Some [''itching'', ''skin_rash''] \<and>
           req_location demo_request = Some ''New Delhi''"
    by (simp add: demo_request_def)
  have v: "symptoms ?b \<noteq> []" by (simp add: backend_with_def demo_symptoms_def)
  from no_candidates_success [OF 1 2 3 4 5 empty_search 7, of demo_request] r v
  show ?thesis by (simp add: demo_specialists)
qed

text \<open>
  The claim as stated asks for a map-points list and an explicit indicator in the
  response. The body the Flask endpoint returns has three keys, none of them
  \<open>map_points\<close>.
\<close>

theorem no_candidates_no_indicator:
  "fst (predict (backend_with demo_model empty_client) demo_request start) =
     (JObj [(''predicted_disease'', JStr ''Fungal infection''), (''specialist'',
         JStr ''Dermatologist''),
            (''doctors'', JList [])], 200) \<and>
   map_of [(''predicted_disease'', JStr ''Fungal infection''), (''specialist'',
       JStr ''Dermatologist''),
           (''doctors'', JList [])] ''map_points'' = None"
  by code_simp

section \<open>Exceptions inside a request\<close>

text \<open>
  Claim C3, as the code has it. On the Flask endpoint an exception raised by the
  classifier, by the search call or inside the detail loop gives status 500 and a
  body whose only key is \<open>error\<close>, with the text of the exception: no predicted
  disease, no specialist, no doctors. On the Streamlit page an exception of the
  classifier shows the error alone. An exception of the search call or of the detail
  loop shows the error and after it, for a non-empty predicted label, the predicted
  condition, the specialist and the doctors list as the \<open>try\<close> block left it: the
  "no doctors" warning after a failed search, the cards after a failed detail loop.
\<close>

theorem fatal_error_outcomes:
  assumes "model b = Some m" "gmaps b = Some g" "symptoms b \<noteq> []"
    and "req_symptoms data = Some S" "S \<noteq> []" "req_location data = Some L" "L \<noteq> []"
  shows
    "(m (model_input (symptoms b) S) = Inl e \<longrightarrow>
        predict b data s =
          ((JObj [(''error'', JStr (str e))], 500),
           s\<lparr>stdout := stdout s @ [''An error occurred during prediction: ''
               @ str e]\<rparr>) \<and>
        find_doctor b True S L s =
          ([Status ''Finding recommendations...'', Write ''Analyzing your symptoms...'',
            StatusUpdate ''Error processing request'' ''error'',
            Error (''An error occurred: '' @ str e)], s)) \<and>
     (m (model_input (symptoms b) S) = Inr p \<and>
      gmaps_places g (specialist_of p @ '' in '' @ L) s = (Inl e, s1) \<longrightarrow>
        predict b data s =
          ((JObj [(''error'', JStr (str e))], 500),
           s1\<lparr>stdout := stdout s1 @ [''An error occurred during prediction: ''
               @ str e]\<rparr>) \<and>
        find_doctor b True S L s =
          ([Status ''Finding recommendations...'', Write ''Analyzing your symptoms...'',
            Write ''Identifying the right specialist...'',
            Write (''Searching for '' @ specialist_of p @ ''s near '' @ L @ ''...''),
            StatusUpdate ''Error processing request'' ''error'',
            Error (''An error occurred: '' @ str e)] @
           (if p \<noteq> [] then
              [Success (''**Predicted Condition:** '' @ p), Balloons,
               Markdown (''### Recommended Specialist: **'' @ specialist_of p @ ''**''), Divider,
               Subheader (''Top 5 '' @ specialist_of p @ ''s near you:''),
               Warning ''No doctors found matching your criteria. Try a broader location.'']
            else []), s1)) \<and>
     (m (model_input (symptoms b) S) = Inr p \<and>
      gmaps_places g (specialist_of p @ '' in '' @ L) s = (Inr pr, s1) \<and>
      details_loop g (take 5 (case results pr of None \<Rightarrow> [] | Some rs \<Rightarrow> rs)) [] s1 = (Inl e, s2) \<longrightarrow>
        predict b data s =
          ((JObj [(''error'', JStr (str e))], 500),
           s2\<lparr>stdout := stdout s2 @ [''An error occurred during prediction: ''
               @ str e]\<rparr>)) \<and>
     (m (model_input (symptoms b) S) = Inr p \<and>
      gmaps_places g (specialist_of p @ '' in '' @ L) s = (Inr pr, s1) \<and>
      place_loop g [] (map (\<lambda>c. (c, None))
          (take 5 (case results pr of None \<Rightarrow> [] | Some rs \<Rightarrow> rs))) [] s1
              = ((Some e, dl, ml), s2) \<longrightarrow>
        find_doctor b True S L s =
          ([Status ''Finding recommendations...'', Write ''Analyzing your symptoms...'',
            Write ''Identifying the right specialist...'',
            Write (''Searching for '' @ specialist_of p @ ''s near '' @ L @ ''...''),
            StatusUpdate ''Error processing request'' ''error'',
            Error (''An error occurred: '' @ str e)] @
           (if p \<noteq> [] then
              [Success (''**Predicted Condition:** '' @ p), Balloons,
               Markdown (''### Recommended Specialist: **'' @ specialist_of p @ ''**''), Divider,
               Subheader (''Top 5 '' @ specialist_of p @ ''s near you:'')] @
              (case cards dl of
                 (shown, ok) \<Rightarrow>
                   shown @
                   (if ok \<and> ml \<noteq> [] then
                      [Divider, Subheader ''Doctor Locations:'', MapChart ml]
                    else []))
            else []), s2))"
proof -
  note pv = predict_valid [OF assms(1,2,4,5,6,7), of s]
  note fv = find_doctor_valid [OF assms(1,2,3,5,7), of s]
  have A: "predict b data s =
          ((JObj [(''error'', JStr (str e))], 500),
           s\<lparr>stdout := stdout s @ [''An error occurred during prediction: ''
               @ str e]\<rparr>) \<and>
        find_doctor b True S L s =
          ([Status ''Finding recommendations...'', Write ''Analyzing your symptoms...'',
            StatusUpdate ''Error processing request'' ''error'',
            Error (''An error occurred: '' @ str e)], s)"
    if c: "m (model_input (symptoms b) S) = Inl e"
    unfolding pv fv
      processing_classifier_raises [where m = m and V = "symptoms b" and S = S, OF c]
    using c by (simp add: display_nothing)
  have B: "predict b data s =
          ((JObj [(''error'', JStr (str e))], 500),
           s1\<lparr>stdout := stdout s1 @ [''An error occurred during prediction: ''
               @ str e]\<rparr>) \<and>
        find_doctor b True S L s =
          ([Status ''Finding recommendations...'', Write ''Analyzing your symptoms...'',
            Write ''Identifying the right specialist...'',
            Write (''Searching for '' @ specialist_of p @ ''s near '' @ L @ ''...''),
            StatusUpdate ''Error processing request'' ''error'',
            Error (''An error occurred: '' @ str e)] @
           (if p \<noteq> [] then
              [Success (''**Predicted Condition:** '' @ p), Balloons,
               Markdown (''### Recommended Specialist: **'' @ specialist_of p @ ''**''), Divider,
               Subheader (''Top 5 '' @ specialist_of p @ ''s near you:''),
               Warning ''No doctors found matching your criteria. Try a broader location.'']
            else []), s1)"
    if c: "m (model_input (symptoms b) S) = Inr p"
      and q: "gmaps_places g (specialist_of p @ '' in '' @ L) s = (Inl e, s1)"
    unfolding pv fv
      processing_search_raises [where m = m and V = "symptoms b" and S = S, OF c q]
    using c q by (simp add: display_predicted)
  have C: "predict b data s =
          ((JObj [(''error'', JStr (str e))], 500),
           s2\<lparr>stdout := stdout s2 @ [''An error occurred during prediction: ''
               @ str e]\<rparr>)"
    if c: "m (model_input (symptoms b) S) = Inr p"
      and q: "gmaps_places g (specialist_of p @ '' in '' @ L) s = (Inr pr, s1)"
      and d: "details_loop g (take 5 (case results pr of None \<Rightarrow> [] | Some rs \<Rightarrow> rs)) [] s1 = (Inl e, s2)"
    unfolding pv using c q d by simp
  have D: "find_doctor b True S L s =
          ([Status ''Finding recommendations...'', Write ''Analyzing your symptoms...'',
            Write ''Identifying the right specialist...'',
            Write (''Searching for '' @ specialist_of p @ ''s near '' @ L @ ''...''),
            StatusUpdate ''Error processing request'' ''error'',
            Error (''An error occurred: '' @ str e)] @
           (if p \<noteq> [] then
              [Success (''**Predicted Condition:** '' @ p), Balloons,
               Markdown (''### Recommended Specialist: **'' @ specialist_of p @ ''**''), Divider,
               Subheader (''Top 5 '' @ specialist_of p @ ''s near you:'')] @
              (case cards dl of
                 (shown, ok) \<Rightarrow>
                   shown @
                   (if ok \<and> ml \<noteq> [] then
                      [Divider, Subheader ''Doctor Locations:'', MapChart ml]
                    else []))
            else []), s2)"
    if c: "m (model_input (symptoms b) S) = Inr p"
      and q: "gmaps_places g (specialist_of p @ '' in '' @ L) s = (Inr pr, s1)"
      and d: "place_loop g [] (map (\<lambda>c. (c, None))
          (take 5 (case results pr of None \<Rightarrow> [] | Some rs \<Rightarrow> rs))) [] s1
              = ((Some e, dl, ml), s2)"
  proof -
    from place_loop_raised_nonempty [OF d] have ne: "dl \<noteq> []" .
    show ?thesis
      unfolding fv processing_loop [where m = m and V = "symptoms b" and S = S, OF c q d]
      using ne by (simp add: display_predicted)
  qed
  from A B C D show ?thesis by blast
qed

theorem fatal_error_outcomes_witness:
  "predict (backend_with broken_model ok_client) demo_request start =
     ((JObj [(''error'', JStr ''X has 4 features, but the model is expecting 132'')], 500),
      \<lparr>world = 0, calls = [],
       stdout = [''An error occurred during prediction: X has 4 features, but the model is expecting 132'']\<rparr>) \<and>
   find_doctor (backend_with broken_model ok_client) True [''itching'',
       ''skin_rash''] ''New Delhi'' start =
     ([Status ''Finding recommendations...'', Write ''Analyzing your symptoms...'',
       StatusUpdate ''Error processing request'' ''error'',
       Error ''An error occurred: X has 4 features, but the model is expecting 132''],
           start) \<and>
   fst (predict (backend_with demo_model down_client) demo_request start) =
     (JObj [(''error'', JStr ''REQUEST_DENIED (The provided API key is invalid.)'')], 500)"
proof -
  let ?S = "[''itching'', ''skin_rash'']"
  let ?L = "''New Delhi''"
  let ?b1 = "backend_with broken_model ok_client"
  let ?b2 = "backend_with demo_model down_client"
  have r: "req_symptoms demo_request = Some ?S" "?S \<noteq> []"
          "req_location demo_request = Some ?L" "?L \<noteq> []"
    by (simp_all add: demo_request_def)
  have c1: "model ?b1 = Some broken_model" "gmaps ?b1 = Some ok_client" "symptoms ?b1 \<noteq> []"
    by (simp_all add: backend_with_def demo_symptoms_def)
  have c2: "model ?b2 = Some demo_model" "gmaps ?b2 = Some down_client" "symptoms ?b2 \<noteq> []"
    by (simp_all add: backend_with_def demo_symptoms_def)
  have h1: "broken_model (model_input (symptoms ?b1) ?S)
              = Inl (Exn ''ValueError'' ''X has 4 features, but the model is expecting 132'')"
    by (simp add: broken_model_def)
  have h2a: "demo_model (model_input (symptoms ?b2) ?S) = Inr ''Fungal infection''"
    by (simp add: backend_with_def demo_prediction)
  note h2 = conjI [OF h2a down_search]
  note a = fatal_error_outcomes [OF c1 r, THEN conjunct1, THEN mp, OF h1]
  note b = fatal_error_outcomes [OF c2 r, THEN conjunct2, THEN conjunct1, THEN mp, OF h2]
  from a b show ?thesis by (simp add: start_def)
qed

text \<open>
  The claim as stated allows no recommendation output beside the error. On the
  Streamlit page a refused search is reported and the predicted condition and the
  specialist are shown all the same.
\<close>

theorem search_error_with_partial_output:
  "fst (find_doctor (backend_with demo_model down_client) True [''headache''] ''Varanasi'' start) =
     [Status ''Finding recommendations...'',
      Write ''Analyzing your symptoms...'',
      Write ''Identifying the right specialist...'',
      Write ''Searching for Neurologists near Varanasi...'',
      StatusUpdate ''Error processing request'' ''error'',
      Error ''An error occurred: REQUEST_DENIED (The provided API key is invalid.)'',
      Success ''**Predicted Condition:** Migraine'', Balloons,
      Markdown ''### Recommended Specialist: **Neurologist**'', Divider,
      Subheader ''Top 5 Neurologists near you:'',
      Warning ''No doctors found matching your criteria. Try a broader location.'']"
  by code_simp

section \<open>A failing detail fetch\<close>










end
